theory Spec2Isabelle
  imports Complex_Main
begin

unbundle bit_operations_syntax

section \<open>Python library functions used by network-admin.py\<close>

text \<open>
  The program validates its input with \<^verbatim>\<open>int\<close>, \<^verbatim>\<open>ipaddress.ip_address\<close>,
  \<^verbatim>\<open>ipaddress.ip_network\<close> and \<^verbatim>\<open>re.match\<close>. They are modelled here as CPython 3.11/3.12
  implements them (Ubuntu 24.04 ships 3.12). A Python string is a \<^typ>\<open>string\<close>: a list of
  characters with code points below 256. A raised exception is the value \<open>None\<close>.
\<close>

subsection \<open>Strings\<close>

text \<open>\<^verbatim>\<open>s.split(sep)\<close> for a one-character separator: empty pieces are kept.\<close>

fun py_split :: "char \<Rightarrow> string \<Rightarrow> string list" where
  "py_split sep [] = [[]]"
| "py_split sep (c # cs) =
     (if c = sep then [] # py_split sep cs
      else (case py_split sep cs of [] \<Rightarrow> [[c]] | p # ps \<Rightarrow> (c # p) # ps))"

text \<open>\<^verbatim>\<open>sep.join(xs)\<close>.\<close>

fun py_join :: "string \<Rightarrow> string list \<Rightarrow> string" where
  "py_join sep [] = []"
| "py_join sep [x] = x"
| "py_join sep (x # y # ys) = x @ sep @ py_join sep (y # ys)"

definition is_ascii_digit :: "char \<Rightarrow> bool" where
  "is_ascii_digit c = (c \<in> set ''0123456789'')"

definition is_ascii_letter :: "char \<Rightarrow> bool" where
  "is_ascii_letter c =
     (c \<in> set ''abcdefghijklmnopqrstuvwxyzABCDEFGHIJKLMNOPQRSTUVWXYZ'')"

text \<open>\<^verbatim>\<open>s.isascii() and s.isdigit()\<close>: a non-empty string of the digits 0 to 9.\<close>

definition ascii_digits :: "string \<Rightarrow> bool" where
  "ascii_digits s = (s \<noteq> [] \<and> list_all is_ascii_digit s)"

definition digit_val :: "char \<Rightarrow> int" where
  "digit_val c = of_char c - 48"

definition dec_val :: "string \<Rightarrow> int" where
  "dec_val s = foldl (\<lambda>a c. 10 * a + digit_val c) 0 s"

definition is_hex_digit :: "char \<Rightarrow> bool" where
  "is_hex_digit c = (c \<in> set ''0123456789ABCDEFabcdef'')"

definition hex_digit_val :: "char \<Rightarrow> int" where
  "hex_digit_val c =
     (if is_ascii_digit c then of_char c - 48
      else if c \<in> set ''abcdef'' then of_char c - 87
      else of_char c - 55)"

definition hex_val :: "string \<Rightarrow> int" where
  "hex_val s = foldl (\<lambda>a c. 16 * a + hex_digit_val c) 0 s"

text \<open>\<^verbatim>\<open>'%x' % n\<close>.\<close>

function hex_str :: "int \<Rightarrow> string" where
  "hex_str n =
     (if n < 16 then [''0123456789abcdef'' ! nat n]
      else hex_str (n div 16) @ [''0123456789abcdef'' ! nat (n mod 16)])"
  by pat_completeness auto
termination
  by (relation "measure nat") auto

subsection \<open>\<^verbatim>\<open>int(s)\<close>\<close>

text \<open>
  \<^verbatim>\<open>int(s)\<close> in base 10: white space is stripped at both ends, one sign is allowed, the digits
  may be grouped by single underscores, and more than 4300 digits are refused (the default of
  \<^verbatim>\<open>sys.set_int_max_str_digits\<close>). An ASCII string is scanned as it is, with the white space
  of C (\<^verbatim>\<open>Py_ISSPACE\<close>); in any other string the white space characters U+0085 and U+00A0
  count as spaces, and every other character from U+007F on is refused (below 256 there is no
  decimal digit but 0 to 9).
\<close>

definition py_isspace :: "char \<Rightarrow> bool" where
  "py_isspace c = (c \<in> {CHR 0x09, CHR 0x0A, CHR 0x0B, CHR 0x0C, CHR 0x0D, CHR 0x20})"

definition py_isascii :: "string \<Rightarrow> bool" where
  "py_isascii s = list_all (\<lambda>c. (of_char c :: nat) < 128) s"

definition transform_decimal_and_space :: "string \<Rightarrow> string" where
  "transform_decimal_and_space s =
     (if py_isascii s then s
      else map (\<lambda>c. if (of_char c :: nat) < 127 then c
                     else if c = CHR 0x85 \<or> c = CHR 0xA0 then CHR 0x20
                     else CHR ''?'') s)"

definition MAX_STR_DIGITS :: nat where
  "MAX_STR_DIGITS = 4300"

definition py_int :: "string \<Rightarrow> int option" where
  "py_int s =
     (let t = dropWhile py_isspace (transform_decimal_and_space s);
          (neg, u) = (case t of
                        c # r \<Rightarrow> if c = CHR ''-'' then (True, r)
                                 else if c = CHR ''+'' then (False, r)
                                 else (False, t)
                      | [] \<Rightarrow> (False, t));
          body = rev (dropWhile py_isspace (rev u));
          groups = py_split (CHR ''_'') body
      in if list_all ascii_digits groups \<and> length (concat groups) \<le> MAX_STR_DIGITS
         then Some (if neg then - dec_val (concat groups) else dec_val (concat groups))
         else None)"

subsection \<open>\<^verbatim>\<open>ipaddress\<close>: addresses\<close>

text \<open>\<^verbatim>\<open>_BaseV4._parse_octet\<close>.\<close>

definition parse_octet :: "string \<Rightarrow> int option" where
  "parse_octet octet_str =
     (if octet_str = [] then None
      else if \<not> ascii_digits octet_str then None
      else if length octet_str > 3 then None
      else if octet_str \<noteq> ''0'' \<and> hd octet_str = CHR ''0'' then None
      else if dec_val octet_str > 255 then None
      else Some (dec_val octet_str))"

text \<open>\<^verbatim>\<open>_BaseV4._ip_int_from_string\<close>.\<close>

definition v4_ip_int_from_string :: "string \<Rightarrow> int option" where
  "v4_ip_int_from_string ip_str =
     (if ip_str = [] then None
      else let octets = py_split (CHR ''.'') ip_str
           in if length octets \<noteq> 4 then None
              else (case those (map parse_octet octets) of
                      None \<Rightarrow> None
                    | Some vs \<Rightarrow> Some (foldl (\<lambda>a v. 256 * a + v) 0 vs)))"

text \<open>\<^verbatim>\<open>IPv4Address(address)\<close> for a string.\<close>

definition IPv4Address :: "string \<Rightarrow> int option" where
  "IPv4Address addr_str =
     (if CHR ''/'' \<in> set addr_str then None else v4_ip_int_from_string addr_str)"

text \<open>\<^verbatim>\<open>_BaseV6._parse_hextet\<close>: \<^verbatim>\<open>int('', 16)\<close> raises.\<close>

definition parse_hextet :: "string \<Rightarrow> int option" where
  "parse_hextet hextet_str =
     (if \<not> list_all is_hex_digit hextet_str then None
      else if length hextet_str > 4 then None
      else if hextet_str = [] then None
      else Some (hex_val hextet_str))"

text \<open>
  The loop of \<^verbatim>\<open>_BaseV6._ip_int_from_string\<close> that looks for the one empty part of
  \<^verbatim>\<open>::\<close>, the endpoints apart: \<open>None\<close> when there are two, else the index found, if any.
\<close>

definition find_skip_index :: "string list \<Rightarrow> nat option option" where
  "find_skip_index parts =
     fold (\<lambda>i acc. case acc of
                      None \<Rightarrow> None
                    | Some skip_index \<Rightarrow>
                        if parts ! i = []
                        then (if skip_index \<noteq> None then None else Some (Some i))
                        else Some skip_index)
          [1 ..< length parts - 1] (Some None)"

definition parse_hextets :: "int \<Rightarrow> string list \<Rightarrow> int option" where
  "parse_hextets ip_int ps =
     (case those (map parse_hextet ps) of
        None \<Rightarrow> None
      | Some vs \<Rightarrow> Some (foldl (\<lambda>a v. a * 65536 + v) ip_int vs))"

text \<open>
  \<^verbatim>\<open>_BaseV6._ip_int_from_string\<close>, in its four stages. First an IPv4-style suffix is
  replaced by its two hextets.
\<close>

definition replace_ipv4_suffix :: "string list \<Rightarrow> string list option" where
  "replace_ipv4_suffix parts =
     (if CHR ''.'' \<in> set (last parts)
      then (case IPv4Address (last parts) of
              None \<Rightarrow> None
            | Some ipv4_int \<Rightarrow>
                Some (butlast parts @
                      [hex_str ((ipv4_int div 65536) mod 65536),
                       hex_str (ipv4_int mod 65536)]))
      else Some parts)"

text \<open>
  Then the numbers of parts before and after \<^verbatim>\<open>::\<close> and of the hextets it stands for:
  \<open>(parts_hi, parts_lo, parts_skipped)\<close>.
\<close>

definition count_parts :: "string list \<Rightarrow> nat option \<Rightarrow> (nat \<times> nat \<times> nat) option" where
  "count_parts parts skip =
     (case skip of
        Some skip_index \<Rightarrow>
          (let parts_hi0 = skip_index;
               parts_lo0 = length parts - skip_index - 1;
               parts_hi = (if hd parts = [] then parts_hi0 - 1 else parts_hi0);
               parts_lo = (if last parts = [] then parts_lo0 - 1 else parts_lo0)
           in if hd parts = [] \<and> parts_hi \<noteq> 0 then None
              else if last parts = [] \<and> parts_lo \<noteq> 0 then None
              else if 8 < parts_hi + parts_lo + 1 then None
              else Some (parts_hi, parts_lo, 8 - (parts_hi + parts_lo)))
      | None \<Rightarrow>
          (if length parts \<noteq> 8 then None
           else if hd parts = [] then None
           else if last parts = [] then None
           else Some (length parts, 0, 0)))"

text \<open>At last the hextets are parsed into the 128-bit integer.\<close>

definition hextets_to_int :: "string list \<Rightarrow> nat \<times> nat \<times> nat \<Rightarrow> int option" where
  "hextets_to_int parts counts =
     (case counts of (parts_hi, parts_lo, parts_skipped) \<Rightarrow>
        (case parse_hextets 0 (take parts_hi parts) of
           None \<Rightarrow> None
         | Some hi \<Rightarrow>
             parse_hextets (hi * 2 ^ (16 * parts_skipped))
               (drop (length parts - parts_lo) parts)))"

definition v6_ip_int_from_string :: "string \<Rightarrow> int option" where
  "v6_ip_int_from_string ip_str =
     (if ip_str = [] then None
      else if length (py_split (CHR '':'') ip_str) < 3 then None
      else (case replace_ipv4_suffix (py_split (CHR '':'') ip_str) of
              None \<Rightarrow> None
            | Some parts \<Rightarrow>
                (if length parts > 9 then None
                 else (case find_skip_index parts of
                         None \<Rightarrow> None
                       | Some skip \<Rightarrow>
                           (case count_parts parts skip of
                              None \<Rightarrow> None
                            | Some counts \<Rightarrow> hextets_to_int parts counts)))))"

text \<open>\<^verbatim>\<open>IPv6Address._split_scope_id\<close>, on \<^verbatim>\<open>ip_str.partition('%')\<close>.\<close>

definition split_scope_id :: "string \<Rightarrow> (string \<times> string option) option" where
  "split_scope_id ip_str =
     (let addr = takeWhile (\<lambda>c. c \<noteq> CHR ''%'') ip_str;
          rest = dropWhile (\<lambda>c. c \<noteq> CHR ''%'') ip_str
      in case rest of
           [] \<Rightarrow> Some (addr, None)
         | _ # scope_id \<Rightarrow>
             if scope_id = [] \<or> CHR ''%'' \<in> set scope_id then None
             else Some (addr, Some scope_id))"

text \<open>\<^verbatim>\<open>IPv6Address(address)\<close> for a string: the address and its scope.\<close>

definition IPv6Address :: "string \<Rightarrow> (int \<times> string option) option" where
  "IPv6Address addr_str =
     (if CHR ''/'' \<in> set addr_str then None
      else case split_scope_id addr_str of
             None \<Rightarrow> None
           | Some (a, scope_id) \<Rightarrow>
               (case v6_ip_int_from_string a of
                  None \<Rightarrow> None
                | Some ip \<Rightarrow> Some (ip, scope_id)))"

datatype ip_addr = V4 int | V6 int "string option"

text \<open>\<^verbatim>\<open>ipaddress.ip_address(address)\<close>: IPv4 first, then IPv6; \<open>None\<close> is its ValueError.\<close>

definition ip_address :: "string \<Rightarrow> ip_addr option" where
  "ip_address address =
     (case IPv4Address address of
        Some ip \<Rightarrow> Some (V4 ip)
      | None \<Rightarrow>
          (case IPv6Address address of
             Some (ip, scope_id) \<Rightarrow> Some (V6 ip scope_id)
           | None \<Rightarrow> None))"

subsection \<open>\<^verbatim>\<open>ipaddress\<close>: networks\<close>

text \<open>\<^verbatim>\<open>_count_righthand_zero_bits(number, bits)\<close>: the trailing zero bits, \<open>bits\<close> at most.\<close>

fun trailing_zeros :: "nat \<Rightarrow> int \<Rightarrow> nat" where
  "trailing_zeros 0 number = 0"
| "trailing_zeros (Suc bits) number =
     (if number mod 2 = 0 then Suc (trailing_zeros bits (number div 2)) else 0)"

definition count_righthand_zero_bits :: "int \<Rightarrow> nat \<Rightarrow> nat" where
  "count_righthand_zero_bits number bits =
     (if number = 0 then bits else trailing_zeros bits number)"

text \<open>\<^verbatim>\<open>_prefix_from_ip_int\<close>: the prefix length of a netmask of ones followed by zeroes.\<close>

definition prefix_from_ip_int :: "nat \<Rightarrow> int \<Rightarrow> nat option" where
  "prefix_from_ip_int max_prefixlen ip_int =
     (let trailing_zeroes = count_righthand_zero_bits ip_int max_prefixlen;
          prefixlen = max_prefixlen - trailing_zeroes;
          leading_ones = ip_int div 2 ^ trailing_zeroes;
          all_ones = 2 ^ prefixlen - 1
      in if leading_ones \<noteq> all_ones then None else Some prefixlen)"

text \<open>\<^verbatim>\<open>_prefix_from_prefix_string\<close>: no sign and no white space, unlike \<^verbatim>\<open>int\<close>.\<close>

definition prefix_from_prefix_string :: "nat \<Rightarrow> string \<Rightarrow> nat option" where
  "prefix_from_prefix_string max_prefixlen prefixlen_str =
     (if \<not> ascii_digits prefixlen_str then None
      else (case py_int prefixlen_str of
              None \<Rightarrow> None
            | Some prefixlen \<Rightarrow>
                if 0 \<le> prefixlen \<and> prefixlen \<le> int max_prefixlen
                then Some (nat prefixlen) else None))"

text \<open>\<^verbatim>\<open>_prefix_from_ip_string\<close> of IPv4: a netmask or a hostmask in dotted-quad form.\<close>

definition v4_prefix_from_ip_string :: "string \<Rightarrow> nat option" where
  "v4_prefix_from_ip_string ip_str =
     (case v4_ip_int_from_string ip_str of
        None \<Rightarrow> None
      | Some ip_int \<Rightarrow>
          (case prefix_from_ip_int 32 ip_int of
             Some prefixlen \<Rightarrow> Some prefixlen
           | None \<Rightarrow> prefix_from_ip_int 32 (ip_int XOR 4294967295)))"

text \<open>\<^verbatim>\<open>_make_netmask\<close> for a string argument, of IPv4 and of IPv6.\<close>

definition v4_make_netmask :: "string \<Rightarrow> nat option" where
  "v4_make_netmask arg =
     (case prefix_from_prefix_string 32 arg of
        Some prefixlen \<Rightarrow> Some prefixlen
      | None \<Rightarrow> v4_prefix_from_ip_string arg)"

definition v6_make_netmask :: "string \<Rightarrow> nat option" where
  "v6_make_netmask arg = prefix_from_prefix_string 128 arg"

text \<open>\<^verbatim>\<open>_ip_int_from_prefix\<close>: \<^verbatim>\<open>ALL_ONES ^ (ALL_ONES >> prefixlen)\<close>.\<close>

definition ip_int_from_prefix :: "nat \<Rightarrow> nat \<Rightarrow> int" where
  "ip_int_from_prefix max_prefixlen prefixlen =
     (2 ^ max_prefixlen - 1) XOR ((2 ^ max_prefixlen - 1) div 2 ^ prefixlen)"

text \<open>
  \<^verbatim>\<open>_split_addr_prefix\<close> with \<^verbatim>\<open>_split_optional_netmask\<close>: the address and the mask, if
  there is one; more than one \<^verbatim>\<open>/\<close> raises.
\<close>

definition split_addr_prefix :: "string \<Rightarrow> (string \<times> string option) option" where
  "split_addr_prefix address =
     (let addr = py_split (CHR ''/'') address
      in if length addr > 2 then None
         else if length addr > 1 then Some (addr ! 0, Some (addr ! 1))
         else Some (addr ! 0, None))"

text \<open>
  \<^verbatim>\<open>IPv4Network(address, strict=False)\<close> and \<^verbatim>\<open>IPv6Network(address, strict=False)\<close>: the
  network address, with the host bits masked out, and the prefix length.
\<close>

definition IPv4Network :: "string \<Rightarrow> (int \<times> nat) option" where
  "IPv4Network address =
     (case split_addr_prefix address of
        None \<Rightarrow> None
      | Some (addr, netmask) \<Rightarrow>
          (case IPv4Address addr of
             None \<Rightarrow> None
           | Some packed \<Rightarrow>
               (case (case netmask of None \<Rightarrow> Some 32 | Some m \<Rightarrow> v4_make_netmask m) of
                  None \<Rightarrow> None
                | Some prefixlen \<Rightarrow>
                    Some (packed AND ip_int_from_prefix 32 prefixlen, prefixlen))))"

definition IPv6Network :: "string \<Rightarrow> (int \<times> nat) option" where
  "IPv6Network address =
     (case split_addr_prefix address of
        None \<Rightarrow> None
      | Some (addr, netmask) \<Rightarrow>
          (case IPv6Address addr of
             None \<Rightarrow> None
           | Some (packed, scope_id) \<Rightarrow>
               (case (case netmask of None \<Rightarrow> Some 128 | Some m \<Rightarrow> v6_make_netmask m) of
                  None \<Rightarrow> None
                | Some prefixlen \<Rightarrow>
                    Some (packed AND ip_int_from_prefix 128 prefixlen, prefixlen))))"

datatype ip_net = Net4 int nat | Net6 int nat

text \<open>\<^verbatim>\<open>ipaddress.ip_network(address, strict=False)\<close>; \<open>None\<close> is its ValueError.\<close>

definition ip_network :: "string \<Rightarrow> ip_net option" where
  "ip_network address =
     (case IPv4Network address of
        Some (a, p) \<Rightarrow> Some (Net4 a p)
      | None \<Rightarrow>
          (case IPv6Network address of
             Some (a, p) \<Rightarrow> Some (Net6 a p)
           | None \<Rightarrow> None))"

subsection \<open>\<^verbatim>\<open>re.match\<close>\<close>

text \<open>
  The regular expressions the program uses: character classes given by ranges, sequence,
  \<^verbatim>\<open>?\<close>, \<^verbatim>\<open>{m,n}\<close> and the anchors \<^verbatim>\<open>^\<close> and \<^verbatim>\<open>$\<close>. Without flags \<^verbatim>\<open>^\<close> matches at the start
  of the string, and \<^verbatim>\<open>$\<close> at its end and also just before a newline that ends it.
\<close>

datatype regex =
    Class "(char \<times> char) list"
  | Seq regex regex
  | Opt regex
  | Repeat regex nat nat
  | Bol
  | Eol

definition in_class :: "(char \<times> char) list \<Rightarrow> char \<Rightarrow> bool" where
  "in_class rs c =
     list_ex (\<lambda>(lo, hi). (of_char lo :: nat) \<le> of_char c \<and> (of_char c :: nat) \<le> of_char hi) rs"

text \<open>
  The matcher gives, in the order in which backtracking tries them, the rests of the input
  that a match of the expression can leave.
\<close>

fun rep_match :: "(string \<Rightarrow> string list) \<Rightarrow> nat \<Rightarrow> nat \<Rightarrow> string \<Rightarrow> string list" where
  "rep_match m lo 0 s = (if lo = 0 then [s] else [])"
| "rep_match m lo (Suc hi) s =
     concat (map (rep_match m (lo - 1) hi) (m s)) @ (if lo = 0 then [s] else [])"

primrec rmatch :: "string \<Rightarrow> regex \<Rightarrow> string \<Rightarrow> string list" where
  "rmatch whole (Class rs) =
     (\<lambda>s. case s of [] \<Rightarrow> [] | c # cs \<Rightarrow> if in_class rs c then [cs] else [])"
| "rmatch whole (Seq a b) = (\<lambda>s. concat (map (rmatch whole b) (rmatch whole a s)))"
| "rmatch whole (Opt a) = (\<lambda>s. rmatch whole a s @ [s])"
| "rmatch whole (Repeat a lo hi) = rep_match (rmatch whole a) lo hi"
| "rmatch whole Bol = (\<lambda>s. if length s = length whole then [s] else [])"
| "rmatch whole Eol = (\<lambda>s. if s = [] \<or> s = [CHR 0x0A] then [s] else [])"

text \<open>\<^verbatim>\<open>re.match(pattern, s)\<close> as a truth value: is there a match at the start of \<open>s\<close>?\<close>

definition re_match :: "regex \<Rightarrow> string \<Rightarrow> bool" where
  "re_match pattern s = (rmatch s pattern s \<noteq> [])"

text \<open>\<^verbatim>\<open>s.endswith(suffix)\<close> and \<^verbatim>\<open>s.strip()\<close> (the white space of \<^verbatim>\<open>str.isspace\<close> below 256).\<close>

definition endswith :: "string \<Rightarrow> string \<Rightarrow> bool" where
  "endswith s suffix =
     (length suffix \<le> length s \<and> drop (length s - length suffix) s = suffix)"

definition py_unicode_isspace :: "char \<Rightarrow> bool" where
  "py_unicode_isspace c =
     (c \<in> {CHR 0x09, CHR 0x0A, CHR 0x0B, CHR 0x0C, CHR 0x0D, CHR 0x1C, CHR 0x1D, CHR 0x1E,
            CHR 0x1F, CHR 0x20, CHR 0x85, CHR 0xA0})"

definition py_strip :: "string \<Rightarrow> string" where
  "py_strip s = rev (dropWhile py_unicode_isspace (rev (dropWhile py_unicode_isspace s)))"

section \<open>Rate limiting\<close>

text \<open>
  \<^verbatim>\<open>_rate_map\<close> is a dictionary from the client address to its list of time stamps. The
  time stamps of \<^verbatim>\<open>time.time()\<close> are taken as real numbers, and the clock reading is an
  argument. The function runs under \<^verbatim>\<open>_rate_lock\<close>, so one call is one step on the map.
\<close>

definition RATE_LIMIT :: nat where
  "RATE_LIMIT = 5"

definition RATE_WINDOW :: real where
  "RATE_WINDOW = 60"

type_synonym rate_map = "string \<rightharpoonup> real list"

definition check_rate_limit :: "real \<Rightarrow> string \<Rightarrow> rate_map \<Rightarrow> bool \<times> rate_map" where
  "check_rate_limit now ip rate_map =
     (let hits0 = (case rate_map ip of None \<Rightarrow> [] | Some h \<Rightarrow> h);
          hits = filter (\<lambda>t. now - t < RATE_WINDOW) hits0
      in if length hits \<ge> RATE_LIMIT then (False, rate_map(ip \<mapsto> hits))
         else (True, rate_map(ip \<mapsto> hits @ [now])))"

text \<open>A run of calls of one client at the given times: the answers, and the map at the end.\<close>

fun rate_calls :: "string \<Rightarrow> real list \<Rightarrow> rate_map \<Rightarrow> bool list \<times> rate_map" where
  "rate_calls ip [] m = ([], m)"
| "rate_calls ip (t # ts) m =
     (case check_rate_limit t ip m of
        (ok, m') \<Rightarrow> (case rate_calls ip ts m' of (oks, m'') \<Rightarrow> (ok # oks, m'')))"

section \<open>Sessions\<close>

text \<open>
  \<^verbatim>\<open>_sessions\<close> maps a session identifier to the time it was last seen. The identifier that
  \<^verbatim>\<open>secrets.token_hex(24)\<close> draws is an argument of \<open>create_session\<close>. \<open>valid_session\<close> reads
  the clock twice, for the comparison (\<open>now\<close>) and for the refresh (\<open>now'\<close>).
\<close>

definition SESSION_TIMEOUT :: real where
  "SESSION_TIMEOUT = 3600"

type_synonym sessions = "string \<rightharpoonup> real"

definition create_session :: "real \<Rightarrow> string \<Rightarrow> sessions \<Rightarrow> string \<times> sessions" where
  "create_session now sid sessions = (sid, sessions(sid \<mapsto> now))"

definition valid_session :: "real \<Rightarrow> real \<Rightarrow> string \<Rightarrow> sessions \<Rightarrow> bool \<times> sessions" where
  "valid_session now now' sid sessions =
     (case sessions sid of
        None \<Rightarrow> (False, sessions)
      | Some ts \<Rightarrow>
          if now - ts > SESSION_TIMEOUT then (False, sessions(sid := None))
          else (True, sessions(sid \<mapsto> now')))"

section \<open>Validation of a proposed configuration\<close>

text \<open>
  The ValueError that the \<^verbatim>\<open>try\<close> block of \<open>apply_network_config\<close> catches, by the call that
  raised it and its argument.
\<close>

datatype value_error = AddressError string | IntError string | NetworkError string

datatype apply_error =
    InvalidIP value_error
  | CidrRange
  | InvalidHostname
  | NoInterface
  | WriteFailed string

text \<open>The message returned with \<^verbatim>\<open>False\<close>; \<open>text_of\<close> renders the exception, as \<^verbatim>\<open>{e}\<close> does.\<close>

definition error_message :: "(value_error \<Rightarrow> string) \<Rightarrow> apply_error \<Rightarrow> string" where
  "error_message text_of e =
     (case e of
        InvalidIP v \<Rightarrow> ''Invalid IP address: '' @ text_of v
      | CidrRange \<Rightarrow> ''CIDR must be between 1 and 32''
      | InvalidHostname \<Rightarrow> ''Invalid hostname''
      | NoInterface \<Rightarrow> ''No network interface found''
      | WriteFailed x \<Rightarrow> ''Failed to write netplan: '' @ x)"

text \<open>Lines 260 to 265: the checks made when \<open>dhcp\<close> is false.\<close>

definition validate_static :: "string \<Rightarrow> string \<Rightarrow> string \<Rightarrow> apply_error option" where
  "validate_static ip cidr gateway =
     (if ip_address ip = None then Some (InvalidIP (AddressError ip))
      else if ip_address gateway = None then Some (InvalidIP (AddressError gateway))
      else (case py_int cidr of
              None \<Rightarrow> Some (InvalidIP (IntError cidr))
            | Some cidr_int \<Rightarrow>
                if cidr_int < 1 \<or> cidr_int > 32 then Some CidrRange
                else if ip_network (ip @ ''/'' @ cidr) = None
                then Some (InvalidIP (NetworkError (ip @ ''/'' @ cidr)))
                else None))"

text \<open>Lines 266 to 269: the name servers, when they are not empty.\<close>

definition validate_dns :: "string \<Rightarrow> string \<Rightarrow> apply_error option" where
  "validate_dns dns1 dns2 =
     (if dns1 \<noteq> [] \<and> ip_address dns1 = None then Some (InvalidIP (AddressError dns1))
      else if dns2 \<noteq> [] \<and> ip_address dns2 = None then Some (InvalidIP (AddressError dns2))
      else None)"

text \<open>The pattern \<^verbatim>\<open>^[a-zA-Z0-9]([a-zA-Z0-9\-]{0,61}[a-zA-Z0-9])?$\<close> of lines 274 and 826.\<close>

definition alnum_class :: "(char \<times> char) list" where
  "alnum_class = [(CHR ''a'', CHR ''z''), (CHR ''A'', CHR ''Z''), (CHR ''0'', CHR ''9'')]"

definition alnum_hyphen_class :: "(char \<times> char) list" where
  "alnum_hyphen_class = alnum_class @ [(CHR ''-'', CHR ''-'')]"

definition hostname_pattern :: regex where
  "hostname_pattern =
     Seq Bol
       (Seq (Class alnum_class)
          (Seq (Opt (Seq (Repeat (Class alnum_hyphen_class) 0 61) (Class alnum_class)))
             Eol))"

definition validate_hostname :: "string \<Rightarrow> apply_error option" where
  "validate_hostname hostname =
     (if hostname \<noteq> [] \<and> \<not> re_match hostname_pattern hostname then Some InvalidHostname
      else None)"

text \<open>Lines 258 to 275: the first failure, in the order of the source.\<close>

definition validate_inputs ::
  "string \<Rightarrow> string \<Rightarrow> string \<Rightarrow> string \<Rightarrow> string \<Rightarrow> string \<Rightarrow> bool \<Rightarrow> apply_error option" where
  "validate_inputs ip cidr gateway dns1 dns2 hostname dhcp =
     (case (if \<not> dhcp then validate_static ip cidr gateway else None) of
        Some e \<Rightarrow> Some e
      | None \<Rightarrow>
          (case validate_dns dns1 dns2 of
             Some e \<Rightarrow> Some e
           | None \<Rightarrow> validate_hostname hostname))"

section \<open>Rendering\<close>

definition nl :: string where
  "nl = [CHR 0x0A]"

text \<open>
  Lines 283 to 312: the two f-strings. \<open>stamp\<close> is the formatted time of
  \<^verbatim>\<open>datetime.now(timezone.utc)\<close>.
\<close>

definition render_netplan ::
  "bool \<Rightarrow> string \<Rightarrow> string \<Rightarrow> string \<Rightarrow> string \<Rightarrow> string \<Rightarrow> string \<Rightarrow> string \<Rightarrow> string" where
  "render_netplan dhcp iface ip cidr gateway dns1 dns2 stamp =
     (let dns_list = filter (\<lambda>d. d \<noteq> []) [dns1, dns2]
      in if dhcp then
           ''# SafeSchool Edge -- Network Configuration (managed by network-admin)'' @ nl @
           ''# Last modified: '' @ stamp @ nl @
           ''network:'' @ nl @
           ''  version: 2'' @ nl @
           ''  ethernets:'' @ nl @
           ''    '' @ iface @ '':'' @ nl @
           ''      dhcp4: true'' @ nl @
           ''      dhcp6: false'' @ nl
         else
           (let dns_str = (if dns_list \<noteq> [] then py_join '', '' dns_list
                           else ''8.8.8.8, 1.1.1.1'')
            in ''# SafeSchool Edge -- Network Configuration (managed by network-admin)'' @ nl @
               ''# Last modified: '' @ stamp @ nl @
               ''network:'' @ nl @
               ''  version: 2'' @ nl @
               ''  ethernets:'' @ nl @
               ''    '' @ iface @ '':'' @ nl @
               ''      dhcp4: false'' @ nl @
               ''      dhcp6: false'' @ nl @
               ''      addresses:'' @ nl @
               ''        - '' @ ip @ ''/'' @ cidr @ nl @
               ''      routes:'' @ nl @
               ''        - to: default'' @ nl @
               ''          via: '' @ gateway @ nl @
               ''      nameservers:'' @ nl @
               ''        addresses: ['' @ dns_str @ '']'' @ nl))"

section \<open>Applying the configuration\<close>

text \<open>
  What the function changes: the files of \<^verbatim>\<open>/etc/netplan\<close> (name, content and permission
  bits, in the order of \<^verbatim>\<open>os.listdir\<close>), the host name, the number of
  \<^verbatim>\<open>sleep 2 && netplan apply\<close> processes started, and the log.
\<close>

record fs_file =
  content :: string
  mode :: nat

type_synonym directory = "(string \<times> fs_file) list"

datatype log_entry =
    RemovedOld string
  | CleanFailed
  | WroteConfig
  | HostnameSet string
  | HostnameFailed
  | ScheduledApply bool string
  | RateLimited string
  | AuthFailed string
  | AuthSucceeded string
  | HostnameChanged string string

record world =
  netplan_dir :: directory
  sys_hostname :: string
  pending_applies :: nat
  logged :: "log_entry list"

text \<open>
  What the function reads from outside, and which of its system calls fail: the formatted
  clock, the answer of \<open>get_default_interface\<close>, whether \<^verbatim>\<open>os.listdir\<close> raises, on which
  names \<^verbatim>\<open>os.remove\<close> raises, where the write of lines 326 to 329 raises (and the text of
  the exception), whether \<^verbatim>\<open>hostnamectl\<close> fails, and the permission bits of a file that
  \<^verbatim>\<open>open\<close> creates.
\<close>

datatype write_stage = AtMakedirs | AtOpen | AtWrite | AtChmod

record env =
  utc_now :: string
  default_interface :: string
  listdir_error :: bool
  remove_error :: "string \<Rightarrow> bool"
  write_error :: "(write_stage \<times> string) option"
  hostnamectl_error :: bool
  new_file_mode :: nat

definition NETPLAN_FILE :: string where
  "NETPLAN_FILE = ''99-safeschool-static.yaml''"

text \<open>Lines 315 to 322: the loop stops at the first \<^verbatim>\<open>os.remove\<close> that raises.\<close>

fun remove_old_loop :: "(string \<Rightarrow> bool) \<Rightarrow> string list \<Rightarrow> world \<Rightarrow> world" where
  "remove_old_loop fails [] w = w"
| "remove_old_loop fails (fname # rest) w =
     (if fname \<noteq> ''99-safeschool-static.yaml'' \<and>
         (endswith fname ''.yaml'' \<or> endswith fname ''.yml'')
      then (if fails fname then w\<lparr>logged := logged w @ [CleanFailed]\<rparr>
            else remove_old_loop fails rest
                   (w\<lparr>netplan_dir := filter (\<lambda>(n, f). n \<noteq> fname) (netplan_dir w),
                      logged := logged w @ [RemovedOld fname]\<rparr>))
      else remove_old_loop fails rest w)"

definition remove_old_configs :: "env \<Rightarrow> world \<Rightarrow> world" where
  "remove_old_configs e w =
     (if listdir_error e then w\<lparr>logged := logged w @ [CleanFailed]\<rparr>
      else remove_old_loop (remove_error e) (map fst (netplan_dir w)) w)"

text \<open>
  Lines 326 to 329, one system call after the other. \<^verbatim>\<open>open(NETPLAN_FILE, "w")\<close> empties the
  file if it is there (its permission bits stay) and creates it empty if not; closing the
  file writes the text; \<^verbatim>\<open>os.chmod\<close> then sets the bits to \<^verbatim>\<open>0o600\<close> (384).
\<close>

definition open_w :: "nat \<Rightarrow> directory \<Rightarrow> directory" where
  "open_w create_mode d =
     (if NETPLAN_FILE \<in> set (map fst d)
      then map (\<lambda>(n, f). if n = NETPLAN_FILE then (n, f\<lparr>content := []\<rparr>) else (n, f)) d
      else d @ [(NETPLAN_FILE, \<lparr>content = [], mode = create_mode\<rparr>)])"

definition write_text :: "string \<Rightarrow> directory \<Rightarrow> directory" where
  "write_text netplan d =
     map (\<lambda>(n, f). if n = NETPLAN_FILE then (n, f\<lparr>content := netplan\<rparr>) else (n, f)) d"

definition chmod :: "nat \<Rightarrow> directory \<Rightarrow> directory" where
  "chmod m d = map (\<lambda>(n, f). if n = NETPLAN_FILE then (n, f\<lparr>mode := m\<rparr>) else (n, f)) d"

text \<open>
  The successive states of the directory during the write, the first being the state before
  it, with the exception that ended it, if any. Any process that reads the directory while
  the function runs sees one of these states.
\<close>

definition write_trace :: "env \<Rightarrow> string \<Rightarrow> directory \<Rightarrow> string option \<times> directory list" where
  "write_trace e netplan d =
     (let d1 = open_w (new_file_mode e) d;
          d2 = write_text netplan d1;
          d3 = chmod 384 d2
      in case write_error e of
           Some (AtMakedirs, x) \<Rightarrow> (Some x, [d])
         | Some (AtOpen, x) \<Rightarrow> (Some x, [d])
         | Some (AtWrite, x) \<Rightarrow> (Some x, [d, d1])
         | Some (AtChmod, x) \<Rightarrow> (Some x, [d, d1, d2])
         | None \<Rightarrow> (None, [d, d1, d2, d3]))"

definition write_config :: "env \<Rightarrow> string \<Rightarrow> world \<Rightarrow> string option \<times> world" where
  "write_config e netplan w =
     (case write_trace e netplan (netplan_dir w) of
        (Some x, states) \<Rightarrow> (Some x, w\<lparr>netplan_dir := last states\<rparr>)
      | (None, states) \<Rightarrow>
          (None, w\<lparr>netplan_dir := last states, logged := logged w @ [WroteConfig]\<rparr>))"

text \<open>Lines 335 to 343: a failure of \<^verbatim>\<open>hostnamectl\<close> is logged and nothing more.\<close>

definition set_hostname :: "env \<Rightarrow> string \<Rightarrow> world \<Rightarrow> world" where
  "set_hostname e hostname w =
     (if hostname = [] then w
      else if hostnamectl_error e then w\<lparr>logged := logged w @ [HostnameFailed]\<rparr>
      else w\<lparr>sys_hostname := hostname, logged := logged w @ [HostnameSet hostname]\<rparr>)"

text \<open>Lines 347 to 351: the detached \<^verbatim>\<open>sleep 2 && netplan apply\<close>.\<close>

definition schedule_apply :: "bool \<Rightarrow> string \<Rightarrow> world \<Rightarrow> world" where
  "schedule_apply dhcp ip w =
     w\<lparr>pending_applies := Suc (pending_applies w),
       logged := logged w @ [ScheduledApply dhcp ip]\<rparr>"

text \<open>
  \<open>apply_network_config\<close>: \<open>Inl\<close> is the answer \<^verbatim>\<open>(False, message)\<close> and \<open>Inr\<close> the answer
  \<^verbatim>\<open>(True, new_ip or "dhcp")\<close>.
\<close>

definition apply_network_config ::
  "env \<Rightarrow> string \<Rightarrow> string \<Rightarrow> string \<Rightarrow> string \<Rightarrow> string \<Rightarrow> string \<Rightarrow> bool \<Rightarrow> string \<Rightarrow> world
     \<Rightarrow> (apply_error + string) \<times> world" where
  "apply_network_config e ip cidr gateway dns1 dns2 hostname dhcp iface w =
     (case validate_inputs ip cidr gateway dns1 dns2 hostname dhcp of
        Some err \<Rightarrow> (Inl err, w)
      | None \<Rightarrow>
          (let iface1 = (if iface = [] then default_interface e else iface)
           in if iface1 = [] then (Inl NoInterface, w)
              else (let netplan = render_netplan dhcp iface1 ip cidr gateway dns1 dns2 (utc_now e);
                        w1 = remove_old_configs e w
                    in case write_config e netplan w1 of
                         (Some x, w2) \<Rightarrow> (Inl (WriteFailed x), w2)
                       | (None, w2) \<Rightarrow>
                           (let w3 = set_hostname e hostname w2;
                                new_ip = (if \<not> dhcp then Some ip else None);
                                w4 = schedule_apply dhcp ip w3
                            in (Inr (case new_ip of
                                       None \<Rightarrow> ''dhcp''
                                     | Some a \<Rightarrow> if a = [] then ''dhcp'' else a), w4)))))"

section \<open>The request handlers\<close>

text \<open>
  A request as the handlers read it: the request path, the value of the \<^verbatim>\<open>session\<close> cookie
  (empty when there is none, as \<open>_get_session\<close> returns it), the address of the client, and
  the body. The body is \<open>None\<close> when \<^verbatim>\<open>json.loads\<close> raises; otherwise it is the JSON object
  read with the defaults of the \<^verbatim>\<open>data.get\<close> calls, its entries being strings and a truth
  value.
\<close>

record form =
  f_token :: string
  f_dhcp :: bool
  f_ip :: string
  f_cidr :: string
  f_gateway :: string
  f_dns1 :: string
  f_dns2 :: string
  f_hostname :: string

record request =
  req_path :: string
  req_session :: string
  req_client :: string
  req_body :: "form option"

datatype payload =
    HtmlPage
  | ErrorJson string
  | NetworkInfoJson
  | SystemInfoJson
  | ServicesInfoJson
  | OkJson
  | NewIpJson string
  | ApplyErrorJson apply_error
  | HostnameJson string
  | HostnameErrorJson

datatype response = Response (status: nat) (payload: payload) (set_cookie: "string option")

text \<open>The state of the process: the two tables, and the system it administers.\<close>

record server =
  srv_rate :: rate_map
  srv_sessions :: sessions
  srv_world :: world

text \<open>
  What one request reads from outside: the clock (one request is handled at one instant), the
  content of the token file as \<open>get_admin_token\<close> returns it, the identifier a new session
  would draw, and the environment of \<open>apply_network_config\<close>.
\<close>

record outside =
  clock :: real
  admin_token :: string
  fresh_sid :: string
  sys_env :: env

text \<open>A line of the log written by a handler.\<close>

definition srv_log :: "log_entry \<Rightarrow> server \<Rightarrow> server" where
  "srv_log entry srv =
     srv\<lparr>srv_world := (srv_world srv)\<lparr>logged := logged (srv_world srv) @ [entry]\<rparr>\<rparr>"

text \<open>\<^verbatim>\<open>self.path.split("?")[0]\<close>: the path up to its first question mark.\<close>

definition strip_query :: "string \<Rightarrow> string" where
  "strip_query p = takeWhile (\<lambda>c. c \<noteq> CHR ''?'') p"

definition is_authed :: "outside \<Rightarrow> request \<Rightarrow> server \<Rightarrow> bool \<times> server" where
  "is_authed out req srv =
     (case valid_session (clock out) (clock out) (req_session req) (srv_sessions srv) of
        (ok, ss) \<Rightarrow> (ok, srv\<lparr>srv_sessions := ss\<rparr>))"

text \<open>Lines 725 to 744. The three inspectors only read the system.\<close>

definition do_GET :: "outside \<Rightarrow> request \<Rightarrow> server \<Rightarrow> response \<times> server" where
  "do_GET out req srv =
     (let path = strip_query (req_path req)
      in if path = ''/'' then (Response 200 HtmlPage None, srv)
         else (case is_authed out req srv of
                 (authed, srv1) \<Rightarrow>
                   if \<not> authed then (Response 401 (ErrorJson ''Unauthorized'') None, srv1)
                   else if path = ''/api/network'' then (Response 200 NetworkInfoJson None, srv1)
                   else if path = ''/api/system'' then (Response 200 SystemInfoJson None, srv1)
                   else if path = ''/api/services''
                   then (Response 200 ServicesInfoJson None, srv1)
                   else (Response 404 (ErrorJson ''Not found'') None, srv1)))"

text \<open>
  Lines 755 to 786: \<^verbatim>\<open>POST /api/auth\<close>. \<^verbatim>\<open>secrets.compare_digest\<close> is taken as the equality
  of the two strings, which it decides for ASCII strings.
\<close>

definition post_auth :: "outside \<Rightarrow> request \<Rightarrow> server \<Rightarrow> response \<times> server" where
  "post_auth out req srv =
     (case req_body req of
        None \<Rightarrow> (Response 400 (ErrorJson ''Invalid request'') None, srv)
      | Some data \<Rightarrow>
          (let token = py_strip (f_token data);
               expected = admin_token out
           in if expected = []
              then (Response 500 (ErrorJson ''Admin token not configured on this device'') None,
                    srv)
              else if token \<noteq> expected
              then (Response 401 (ErrorJson ''Invalid admin token'') None,
                    srv_log (AuthFailed (req_client req)) srv)
              else (case create_session (clock out) (fresh_sid out) (srv_sessions srv) of
                      (sid, ss) \<Rightarrow>
                        (Response 200 OkJson
                           (Some (''session='' @ sid @
                                  ''; HttpOnly; SameSite=Strict; Path=/; Max-Age=3600'')),
                         srv_log (AuthSucceeded (req_client req)) (srv\<lparr>srv_sessions := ss\<rparr>)))))"

text \<open>Lines 793 to 816: \<^verbatim>\<open>POST /api/network\<close>.\<close>

definition post_network :: "outside \<Rightarrow> request \<Rightarrow> server \<Rightarrow> response \<times> server" where
  "post_network out req srv =
     (case req_body req of
        None \<Rightarrow> (Response 400 (ErrorJson ''Invalid request'') None, srv)
      | Some data \<Rightarrow>
          (case apply_network_config (sys_env out) (f_ip data) (f_cidr data) (f_gateway data)
                  (f_dns1 data) (f_dns2 data) (f_hostname data) (f_dhcp data)
                  (default_interface (sys_env out)) (srv_world srv) of
             (Inr result, w) \<Rightarrow> (Response 200 (NewIpJson result) None, srv\<lparr>srv_world := w\<rparr>)
           | (Inl err, w) \<Rightarrow> (Response 400 (ApplyErrorJson err) None, srv\<lparr>srv_world := w\<rparr>)))"

text \<open>Lines 818 to 838: \<^verbatim>\<open>POST /api/hostname\<close>.\<close>

definition post_hostname :: "outside \<Rightarrow> request \<Rightarrow> server \<Rightarrow> response \<times> server" where
  "post_hostname out req srv =
     (case req_body req of
        None \<Rightarrow> (Response 400 (ErrorJson ''Invalid request'') None, srv)
      | Some data \<Rightarrow>
          (let hostname = py_strip (f_hostname data)
           in if hostname = [] \<or> \<not> re_match hostname_pattern hostname
              then (Response 400 (ErrorJson ''Invalid hostname'') None, srv)
              else if hostnamectl_error (sys_env out)
              then (Response 500 HostnameErrorJson None, srv)
              else (Response 200 (HostnameJson hostname) None,
                    srv_log (HostnameChanged hostname (req_client req))
                      (srv\<lparr>srv_world := (srv_world srv)\<lparr>sys_hostname := hostname\<rparr>\<rparr>))))"

text \<open>Lines 746 to 840.\<close>

definition do_POST :: "outside \<Rightarrow> request \<Rightarrow> server \<Rightarrow> response \<times> server" where
  "do_POST out req srv =
     (case check_rate_limit (clock out) (req_client req) (srv_rate srv) of
        (allowed, rm) \<Rightarrow>
          (let srv0 = srv\<lparr>srv_rate := rm\<rparr>
           in if \<not> allowed
              then (Response 429 (ErrorJson ''Too many requests. Try again later.'') None,
                    srv_log (RateLimited (req_client req)) srv0)
              else (let path = strip_query (req_path req)
                    in if path = ''/api/auth'' then post_auth out req srv0
                       else (case is_authed out req srv0 of
                               (authed, srv1) \<Rightarrow>
                                 if \<not> authed
                                 then (Response 401 (ErrorJson ''Unauthorized'') None, srv1)
                                 else if path = ''/api/network'' then post_network out req srv1
                                 else if path = ''/api/hostname''
                                 then post_hostname out req srv1
                                 else (Response 404 (ErrorJson ''Not found'') None, srv1)))))"

text \<open>The paths the handlers know, for each method.\<close>

definition get_endpoints :: "string list" where
  "get_endpoints = [''/'', ''/api/network'', ''/api/system'', ''/api/services'']"

definition post_endpoints :: "string list" where
  "post_endpoints = [''/api/auth'', ''/api/network'', ''/api/hostname'']"

section \<open>Notions used to state the properties\<close>

text \<open>
  The sliding window over the whole history of a client: \<open>acc\<close> holds every time stamp that
  was accepted so far, none is ever forgotten, and a call at time \<open>t\<close> is accepted when fewer
  than \<open>RATE_LIMIT\<close> of them are less than \<open>RATE_WINDOW\<close> old.
\<close>

fun window_accepts :: "real list \<Rightarrow> real list \<Rightarrow> bool list" where
  "window_accepts acc [] = []"
| "window_accepts acc (t # ts) =
     (if length (filter (\<lambda>a. t - a < RATE_WINDOW) acc) < RATE_LIMIT
      then True # window_accepts (acc @ [t]) ts
      else False # window_accepts acc ts)"

text \<open>The time stamps recorded for a client, none when it has no entry.\<close>

definition hits_of :: "rate_map \<Rightarrow> string \<Rightarrow> real list" where
  "hits_of m ip = (case m ip of None \<Rightarrow> [] | Some h \<Rightarrow> h)"

text \<open>
  The rule of the specification, in its words: discard the time stamps older than
  \<open>now - window\<close>; if the remaining count is at least the threshold, reject without
  recording; otherwise record \<open>now\<close> and accept.
\<close>

definition allow_spec :: "real \<Rightarrow> string \<Rightarrow> rate_map \<Rightarrow> bool \<times> rate_map" where
  "allow_spec now clientKey m =
     (let remaining = filter (\<lambda>t. \<not> t < now - RATE_WINDOW) (hits_of m clientKey)
      in if length remaining \<ge> RATE_LIMIT then (False, m(clientKey \<mapsto> remaining))
         else (True, m(clientKey \<mapsto> remaining @ [now])))"

text \<open>
  The number of accepted calls, among the calls made at the times \<open>ts\<close> and answered \<open>oks\<close>,
  that lie in the window from \<open>lo\<close> to less than \<open>lo + RATE_WINDOW\<close>.
\<close>

definition accepted_within :: "real \<Rightarrow> real list \<Rightarrow> bool list \<Rightarrow> nat" where
  "accepted_within lo ts oks =
     length (filter (\<lambda>(t, ok). ok \<and> lo \<le> t \<and> t - lo < RATE_WINDOW) (zip ts oks))"

text \<open>A text given by its lines, each ended by a newline.\<close>

definition text_of_lines :: "string list \<Rightarrow> string" where
  "text_of_lines ls = concat (map (\<lambda>l. l @ nl) ls)"

text \<open>
  The syntax of a label of RFC 1123: 1 to 63 characters, the first and the last a letter or
  a digit, the others letters, digits or hyphens.
\<close>

definition is_alnum :: "char \<Rightarrow> bool" where
  "is_alnum c = (is_ascii_letter c \<or> is_ascii_digit c)"

definition rfc1123_label :: "string \<Rightarrow> bool" where
  "rfc1123_label h =
     (1 \<le> length h \<and> length h \<le> 63 \<and> is_alnum (hd h) \<and> is_alnum (last h) \<and>
      list_all (\<lambda>c. is_alnum c \<or> c = CHR ''-'') h)"

text \<open>The five lines every artifact starts with.\<close>

definition header_lines :: "string \<Rightarrow> string list" where
  "header_lines stamp =
     [''# SafeSchool Edge -- Network Configuration (managed by network-admin)'',
      ''# Last modified: '' @ stamp,
      ''network:'',
      ''  version: 2'',
      ''  ethernets:'']"

text \<open>
  Two properties of the states that a write goes through: in each of them the managed file
  is there and holds the old text or the new one; and in each of them the file, when it
  holds the new text, is readable and writable by its owner only.
\<close>

definition never_partial :: "string \<Rightarrow> string \<Rightarrow> directory list \<Rightarrow> bool" where
  "never_partial old new states =
     list_all (\<lambda>d. case map_of d NETPLAN_FILE of
                     None \<Rightarrow> False
                   | Some f \<Rightarrow> content f = old \<or> content f = new) states"

definition restricted_when_new :: "string \<Rightarrow> directory list \<Rightarrow> bool" where
  "restricted_when_new new states =
     list_all (\<lambda>d. case map_of d NETPLAN_FILE of
                     None \<Rightarrow> True
                   | Some f \<Rightarrow> content f \<noteq> new \<or> mode f = 384) states"

text \<open>
  A system to run the program on: no system call fails, files are created with the bits
  \<^verbatim>\<open>0o644\<close> (420), the directory holds an installer's file and an older managed file, and
  one session is open.
\<close>

definition example_env :: env where
  "example_env =
     \<lparr>utc_now = ''2025-01-01T00:00:00Z'', default_interface = ''eth0'', listdir_error = False,
      remove_error = (\<lambda>fname. False), write_error = None, hostnamectl_error = False,
      new_file_mode = 420\<rparr>"

definition example_world :: world where
  "example_world =
     \<lparr>netplan_dir =
        [(''50-cloud-init.yaml'', \<lparr>content = ''network: {version: 2}'', mode = 420\<rparr>),
         (''99-safeschool-static.yaml'', \<lparr>content = ''old'', mode = 420\<rparr>)],
      sys_hostname = ''ubuntu'', pending_applies = 0, logged = []\<rparr>"

definition example_server :: server where
  "example_server =
     \<lparr>srv_rate = Map.empty, srv_sessions = [''5f2a'' \<mapsto> 0], srv_world = example_world\<rparr>"

definition example_outside :: outside where
  "example_outside =
     \<lparr>clock = 100, admin_token = ''secret'', fresh_sid = ''9c41'', sys_env = example_env\<rparr>"

text \<open>The request body of the end-to-end example of the specification.\<close>

definition example_form :: form where
  "example_form =
     \<lparr>f_token = [], f_dhcp = False, f_ip = ''192.168.1.50'', f_cidr = ''24'',
      f_gateway = ''192.168.1.1'', f_dns1 = ''8.8.8.8'', f_dns2 = [],
      f_hostname = ''edge-01''\<rparr>"

section \<open>Properties of the rate limiter\<close>

lemma filter_window_mono:
  "lo \<le> t \<Longrightarrow> filter (\<lambda>a. t - a < RATE_WINDOW) (filter (\<lambda>a. lo - a < RATE_WINDOW) acc)
     = filter (\<lambda>a. t - a < RATE_WINDOW) acc"
  by (induction acc) auto

lemma check_rate_limit_kept:
  "filter (\<lambda>a. t - a < RATE_WINDOW) (hits_of m ip) = kept \<Longrightarrow>
   check_rate_limit t ip m =
     (if length kept < RATE_LIMIT then (True, m(ip \<mapsto> kept @ [t])) else (False, m(ip \<mapsto> kept)))"
  by (auto simp: check_rate_limit_def hits_of_def Let_def)

text \<open>
  The list the program keeps is what the last call left of the history; as long as the clock
  does not go back, pruning it again gives what pruning the whole history gives. So a run
  of calls is answered as the sliding window over the whole history answers it.
\<close>

lemma rate_calls_history:
  assumes "sorted ts"
    and "\<forall>t \<in> set ts. filter (\<lambda>a. t - a < RATE_WINDOW) (hits_of m ip)
                         = filter (\<lambda>a. t - a < RATE_WINDOW) acc"
  shows "fst (rate_calls ip ts m) = window_accepts acc ts"
  using assms
proof (induction ts arbitrary: m acc)
  case Nil
  then show ?case by simp
next
  case (Cons t ts)
  let ?kept = "filter (\<lambda>a. t - a < RATE_WINDOW) acc"
  have kept: "filter (\<lambda>a. t - a < RATE_WINDOW) (hits_of m ip) = ?kept"
    using Cons.prems(2) by simp
  have step: "check_rate_limit t ip m =
     (if length ?kept < RATE_LIMIT then (True, m(ip \<mapsto> ?kept @ [t]))
      else (False, m(ip \<mapsto> ?kept)))"
    using kept by (rule check_rate_limit_kept)
  have sorted: "sorted ts" and later: "\<forall>u \<in> set ts. t \<le> u"
    using Cons.prems(1) by auto
  have again: "\<forall>u \<in> set ts. filter (\<lambda>a. u - a < RATE_WINDOW) ?kept
                                 = filter (\<lambda>a. u - a < RATE_WINDOW) acc"
  proof
    fix u assume "u \<in> set ts"
    then have "t \<le> u" using later by blast
    then show "filter (\<lambda>a. u - a < RATE_WINDOW) ?kept = filter (\<lambda>a. u - a < RATE_WINDOW) acc"
      by (rule filter_window_mono)
  qed
  show ?case
  proof (cases "length ?kept < RATE_LIMIT")
    case True
    have "\<forall>u \<in> set ts. filter (\<lambda>a. u - a < RATE_WINDOW) (hits_of (m(ip \<mapsto> ?kept @ [t])) ip)
                           = filter (\<lambda>a. u - a < RATE_WINDOW) (acc @ [t])"
      using again by (simp add: hits_of_def)
    with sorted
    have "fst (rate_calls ip ts (m(ip \<mapsto> ?kept @ [t]))) = window_accepts (acc @ [t]) ts"
      by (rule Cons.IH)
    with True show ?thesis by (simp add: step case_prod_unfold)
  next
    case False
    have "\<forall>u \<in> set ts. filter (\<lambda>a. u - a < RATE_WINDOW) (hits_of (m(ip \<mapsto> ?kept)) ip)
                           = filter (\<lambda>a. u - a < RATE_WINDOW) acc"
      using again by (simp add: hits_of_def)
    with sorted
    have "fst (rate_calls ip ts (m(ip \<mapsto> ?kept))) = window_accepts acc ts"
      by (rule Cons.IH)
    with False show ?thesis by (simp add: step case_prod_unfold)
  qed
qed

lemma rate_calls_any:
  "sorted ts \<Longrightarrow> fst (rate_calls ip ts m) = window_accepts (hits_of m ip) ts"
  by (rule rate_calls_history) simp_all

text \<open>
  Of the calls that lie in one window, from \<open>lo\<close> to less than \<open>lo + RATE_WINDOW\<close>, the
  sliding window accepts \<open>RATE_LIMIT\<close> at most, less the stamps of the history that are not
  before \<open>lo\<close>: each of these is in the window of every call that lies there.
\<close>

lemma window_keeps_recent:
  assumes "lo \<le> t" "t - lo < RATE_WINDOW"
  shows "length (filter (\<lambda>a. lo \<le> a) acc) \<le> length (filter (\<lambda>a. t - a < RATE_WINDOW) acc)"
proof (induction acc)
  case Nil
  then show ?case by simp
next
  case (Cons a acc)
  have "lo \<le> a \<Longrightarrow> t - a < RATE_WINDOW" using assms by simp
  with Cons show ?case by auto
qed

lemma window_accepts_bound:
  "accepted_within lo ts (window_accepts acc ts)
     \<le> RATE_LIMIT - length (filter (\<lambda>a. lo \<le> a) acc)"
proof (induction ts arbitrary: acc)
  case Nil
  then show ?case by (simp add: accepted_within_def)
next
  case (Cons t ts)
  let ?k = "length (filter (\<lambda>a. lo \<le> a) acc)"
  have rejected: "accepted_within lo ts (window_accepts acc ts) \<le> RATE_LIMIT - ?k"
    by (rule Cons.IH)
  have accepted: "accepted_within lo ts (window_accepts (acc @ [t]) ts)
                    \<le> RATE_LIMIT - length (filter (\<lambda>a. lo \<le> a) (acc @ [t]))"
    by (rule Cons.IH)
  show ?case
  proof (cases "length (filter (\<lambda>a. t - a < RATE_WINDOW) acc) < RATE_LIMIT")
    case False
    with rejected show ?thesis by (simp add: accepted_within_def)
  next
    case True
    show ?thesis
    proof (cases "lo \<le> t \<and> t - lo < RATE_WINDOW")
      case inside: True
      then have "?k \<le> length (filter (\<lambda>a. t - a < RATE_WINDOW) acc)"
        by (simp add: window_keeps_recent)
      with True have "?k < RATE_LIMIT" by simp
      moreover have "accepted_within lo ts (window_accepts (acc @ [t]) ts) \<le> RATE_LIMIT - Suc ?k"
        using accepted inside by simp
      ultimately have "Suc (accepted_within lo ts (window_accepts (acc @ [t]) ts)) \<le> RATE_LIMIT - ?k"
        by arith
      with True inside show ?thesis by (simp add: accepted_within_def)
    next
      case outside: False
      have "accepted_within lo ts (window_accepts (acc @ [t]) ts) \<le> RATE_LIMIT - ?k"
        using accepted by (rule order_trans) simp
      with True outside show ?thesis by (auto simp add: accepted_within_def)
    qed
  qed
qed

lemma rate_calls_bound:
  assumes "sorted ts"
  shows "accepted_within lo ts (fst (rate_calls ip ts m)) \<le> RATE_LIMIT"
proof -
  have "accepted_within lo ts (window_accepts (hits_of m ip) ts)
          \<le> RATE_LIMIT - length (filter (\<lambda>a. lo \<le> a) (hits_of m ip))"
    by (rule window_accepts_bound)
  then show ?thesis using assms by (simp add: rate_calls_any)
qed

text \<open>
  Six calls within less than one window, when every time stamp on record is a full window
  old at the first of them.
\<close>

lemma window_accepts_burst:
  assumes "t1 \<le> t2" "t2 \<le> t3" "t3 \<le> t4" "t4 \<le> t5" "t5 \<le> t6" "t6 - t1 < RATE_WINDOW"
  shows "window_accepts [] [t1, t2, t3, t4, t5, t6] = [True, True, True, True, True, False]"
  using assms by (simp add: RATE_LIMIT_def RATE_WINDOW_def)

lemma rate_calls_burst:
  assumes "\<forall>a \<in> set (hits_of m ip). RATE_WINDOW \<le> t1 - a"
    and "t1 \<le> t2" "t2 \<le> t3" "t3 \<le> t4" "t4 \<le> t5" "t5 \<le> t6" "t6 - t1 < RATE_WINDOW"
  shows "fst (rate_calls ip [t1, t2, t3, t4, t5, t6] m) = [True, True, True, True, True, False]"
proof -
  have gone: "filter (\<lambda>a. t - a < RATE_WINDOW) (hits_of m ip) = []" if "t1 \<le> t" for t
    using assms(1) that by (fastforce simp: filter_empty_conv)
  have "fst (rate_calls ip [t1, t2, t3, t4, t5, t6] m) = window_accepts [] [t1, t2, t3, t4, t5, t6]"
    using assms(2-6) by (intro rate_calls_history) (auto simp: gone)
  then show ?thesis using assms(2-7) by (simp only: window_accepts_burst)
qed

lemma check_rate_limit_elapsed:
  assumes "\<forall>t \<in> set (hits_of m ip). RATE_WINDOW \<le> now - t"
  shows "check_rate_limit now ip m = (True, m(ip \<mapsto> [now]))"
proof -
  have "filter (\<lambda>t. now - t < RATE_WINDOW) (hits_of m ip) = []"
    using assms by (auto simp: filter_empty_conv)
  then show ?thesis by (simp add: check_rate_limit_kept RATE_LIMIT_def)
qed

text \<open>
  C5, amended. One call of the rate limiter keeps the recorded time stamps that are less
  than \<open>RATE_WINDOW\<close> (60) old, \<open>now - t < 60\<close>: it drops those older than \<open>now - 60\<close> and
  also one that is exactly 60 old. If \<open>RATE_LIMIT\<close> (5) or more remain it rejects and
  records nothing; otherwise it records \<open>now\<close> and accepts; the lists of the other clients
  are untouched. Consequently, when the clock does not go back and whatever is on record:
  a run of calls is answered as the sliding window over the whole history answers it; of
  the calls of a run that lie in any one window, from a time \<open>lo\<close> to less than \<open>lo + 60\<close>,
  at most 5 are accepted; when every time stamp on record is a full window old at the first
  of six calls made within less than one window, the first five are accepted and the sixth
  is rejected; and a call made when every time stamp on record is a full window old is
  accepted.
\<close>

theorem rate_limiter_sliding_window:
  "(check_rate_limit now ip m =
      (let kept = filter (\<lambda>t. now - t < RATE_WINDOW) (case m ip of None \<Rightarrow> [] | Some h \<Rightarrow> h)
       in if RATE_LIMIT \<le> length kept then (False, m(ip \<mapsto> kept))
          else (True, m(ip \<mapsto> kept @ [now]))))
   \<and> (sorted ts \<longrightarrow> fst (rate_calls ip ts m) = window_accepts (hits_of m ip) ts)
   \<and> (sorted ts \<longrightarrow> accepted_within lo ts (fst (rate_calls ip ts m)) \<le> RATE_LIMIT)
   \<and> ((\<forall>a \<in> set (hits_of m ip). RATE_WINDOW \<le> t1 - a) \<and>
        t1 \<le> t2 \<and> t2 \<le> t3 \<and> t3 \<le> t4 \<and> t4 \<le> t5 \<and> t5 \<le> t6 \<and> t6 - t1 < RATE_WINDOW \<longrightarrow>
        fst (rate_calls ip [t1, t2, t3, t4, t5, t6] m) = [True, True, True, True, True, False])
   \<and> ((\<forall>t \<in> set (hits_of m ip). RATE_WINDOW \<le> now - t) \<longrightarrow>
        check_rate_limit now ip m = (True, m(ip \<mapsto> [now])))"
proof (intro conjI impI)
  show "check_rate_limit now ip m =
      (let kept = filter (\<lambda>t. now - t < RATE_WINDOW) (case m ip of None \<Rightarrow> [] | Some h \<Rightarrow> h)
       in if RATE_LIMIT \<le> length kept then (False, m(ip \<mapsto> kept))
          else (True, m(ip \<mapsto> kept @ [now])))"
    by (simp add: check_rate_limit_def)
next
  assume "sorted ts"
  then show "fst (rate_calls ip ts m) = window_accepts (hits_of m ip) ts"
    by (rule rate_calls_any)
next
  assume "sorted ts"
  then show "accepted_within lo ts (fst (rate_calls ip ts m)) \<le> RATE_LIMIT"
    by (rule rate_calls_bound)
next
  assume "(\<forall>a \<in> set (hits_of m ip). RATE_WINDOW \<le> t1 - a) \<and>
        t1 \<le> t2 \<and> t2 \<le> t3 \<and> t3 \<le> t4 \<and> t4 \<le> t5 \<and> t5 \<le> t6 \<and> t6 - t1 < RATE_WINDOW"
  then show "fst (rate_calls ip [t1, t2, t3, t4, t5, t6] m)
               = [True, True, True, True, True, False]"
    using rate_calls_burst[of m ip t1 t2 t3 t4 t5 t6] by blast
next
  assume "\<forall>t \<in> set (hits_of m ip). RATE_WINDOW \<le> now - t"
  then show "check_rate_limit now ip m = (True, m(ip \<mapsto> [now]))"
    by (rule check_rate_limit_elapsed)
qed

text \<open>
  The theorem at work on a client with the stamps 0 and 10 on record, both a full window
  old at 70: it calls at 70, 80, 90, 100, 110 and 120, and the sixth call is rejected; a
  seventh call at 130, a full window after the first, is accepted again. Of the seven calls
  five of those in the window from 70 on are accepted, and five of those in the window from
  75 on.
\<close>

theorem rate_limiter_sliding_window_witness:
  "sorted [70, 80, 90, 100, 110, 120, 130 :: real]
   \<and> hits_of [''10.0.0.9'' \<mapsto> [0, 10]] ''10.0.0.9'' = [0, 10]
   \<and> RATE_WINDOW \<le> 70 - 0 \<and> RATE_WINDOW \<le> 70 - 10
   \<and> (70::real) \<le> 80 \<and> (80::real) \<le> 90 \<and> (90::real) \<le> 100 \<and> (100::real) \<le> 110
   \<and> (110::real) \<le> 120 \<and> (120::real) - 70 < RATE_WINDOW
   \<and> check_rate_limit 70 ''10.0.0.9'' [''10.0.0.9'' \<mapsto> [0, 10]]
       = (True, [''10.0.0.9'' \<mapsto> [70]])
   \<and> fst (rate_calls ''10.0.0.9'' [70, 80, 90, 100, 110, 120] [''10.0.0.9'' \<mapsto> [0, 10]])
       = [True, True, True, True, True, False]
   \<and> fst (rate_calls ''10.0.0.9'' [70, 80, 90, 100, 110, 120, 130]
            [''10.0.0.9'' \<mapsto> [0, 10]])
       = [True, True, True, True, True, False, True]
   \<and> window_accepts [0, 10] [70, 80, 90, 100, 110, 120, 130]
       = [True, True, True, True, True, False, True]
   \<and> accepted_within 70 [70, 80, 90, 100, 110, 120, 130]
        (fst (rate_calls ''10.0.0.9'' [70, 80, 90, 100, 110, 120, 130]
                [''10.0.0.9'' \<mapsto> [0, 10]])) = 5
   \<and> accepted_within 75 [70, 80, 90, 100, 110, 120, 130]
        (fst (rate_calls ''10.0.0.9'' [70, 80, 90, 100, 110, 120, 130]
                [''10.0.0.9'' \<mapsto> [0, 10]])) = 5
   \<and> (5::nat) \<le> RATE_LIMIT"
  using rate_limiter_sliding_window
          [where now = 70 and ip = "''10.0.0.9''" and m = "[''10.0.0.9'' \<mapsto> [0, 10]]"
             and ts = "[70, 80, 90, 100, 110, 120, 130]" and lo = 75
             and ?t1.0 = 70 and ?t2.0 = 80 and ?t3.0 = 90 and ?t4.0 = 100 and ?t5.0 = 110
             and ?t6.0 = 120]
  by (simp add: RATE_WINDOW_def RATE_LIMIT_def hits_of_def check_rate_limit_def
        accepted_within_def)

text \<open>
  C5, as stated, fails at the boundary of the window. With five time stamps on record that
  are exactly one window old, the rule of the specification drops none (none is older than
  \<open>now - window\<close>) and rejects, while \<open>check_rate_limit\<close> drops all five and accepts. And
  six calls at the times 0, 0, 0, 0, 0 and 60, which lie in a window of the duration 60,
  are all accepted.
\<close>

theorem rate_limiter_boundary_counterexample:
  "allow_spec 60 ''10.0.0.9'' [''10.0.0.9'' \<mapsto> [0, 0, 0, 0, 0]]
     = (False, [''10.0.0.9'' \<mapsto> [0, 0, 0, 0, 0]])
   \<and> check_rate_limit 60 ''10.0.0.9'' [''10.0.0.9'' \<mapsto> [0, 0, 0, 0, 0]]
     = (True, [''10.0.0.9'' \<mapsto> [60]])
   \<and> fst (rate_calls ''10.0.0.9'' [0, 0, 0, 0, 0, 60] Map.empty)
     = [True, True, True, True, True, True]"
  by (simp add: allow_spec_def check_rate_limit_def hits_of_def RATE_WINDOW_def RATE_LIMIT_def
        Let_def)

section \<open>Properties of the sessions\<close>



section \<open>Validation failures leave the system alone\<close>

lemma apply_rejects:
  "validate_inputs ip cidr gateway dns1 dns2 hostname dhcp = Some err \<Longrightarrow>
   apply_network_config e ip cidr gateway dns1 dns2 hostname dhcp iface w = (Inl err, w)"
  by (simp add: apply_network_config_def)

lemma validate_static_bad:
  "ip_address ip = None \<or> ip_address gateway = None \<or>
     (case py_int cidr of None \<Rightarrow> True | Some n \<Rightarrow> n < 1 \<or> 32 < n) \<Longrightarrow>
   validate_static ip cidr gateway \<noteq> None"
  by (auto simp: validate_static_def split: option.splits)

lemma validate_inputs_bad:
  assumes "(\<not> dhcp \<and> (ip_address ip = None \<or> ip_address gateway = None \<or>
              (case py_int cidr of None \<Rightarrow> True | Some n \<Rightarrow> n < 1 \<or> 32 < n)))
           \<or> (dns1 \<noteq> [] \<and> ip_address dns1 = None)
           \<or> (dns2 \<noteq> [] \<and> ip_address dns2 = None)
           \<or> (hostname \<noteq> [] \<and> \<not> re_match hostname_pattern hostname)"
  shows "validate_inputs ip cidr gateway dns1 dns2 hostname dhcp \<noteq> None"
  using assms validate_static_bad[of ip gateway cidr]
  by (auto simp: validate_inputs_def validate_dns_def validate_hostname_def split: option.splits)

lemma validate_inputs_error_kind:
  "validate_inputs ip cidr gateway dns1 dns2 hostname dhcp = Some err \<Longrightarrow>
   err = CidrRange \<or> err = InvalidHostname \<or> (\<exists>v. err = InvalidIP v)"
  by (auto simp: validate_inputs_def validate_static_def validate_dns_def validate_hostname_def
           split: option.splits if_splits)

text \<open>
  C4. When a proposed configuration is malformed (with \<open>dhcp\<close> false an \<open>ip\<close> or a \<open>gateway\<close>
  that is no address, or a \<open>cidr\<close> that is no integer or lies outside 1 to 32; a name server
  that is not empty and no address; a host name that is not empty and does not match the
  pattern), \<open>apply_network_config\<close> returns an error of validation and the system is as it
  was: the directory, the host name, the number of scheduled activations and the log. The
  handler of \<^verbatim>\<open>POST /api/network\<close> then answers 400 and the state of the server is unchanged.
\<close>

theorem validation_failure_changes_nothing:
  assumes "(\<not> dhcp \<and> (ip_address ip = None \<or> ip_address gateway = None \<or>
              (case py_int cidr of None \<Rightarrow> True | Some n \<Rightarrow> n < 1 \<or> 32 < n)))
           \<or> (dns1 \<noteq> [] \<and> ip_address dns1 = None)
           \<or> (dns2 \<noteq> [] \<and> ip_address dns2 = None)
           \<or> (hostname \<noteq> [] \<and> \<not> re_match hostname_pattern hostname)"
  shows "\<exists>err. apply_network_config e ip cidr gateway dns1 dns2 hostname dhcp iface w = (Inl err, w)
           \<and> (err = CidrRange \<or> err = InvalidHostname \<or> (\<exists>v. err = InvalidIP v))
           \<and> post_network out
                (req\<lparr>req_body := Some \<lparr>f_token = tok, f_dhcp = dhcp, f_ip = ip, f_cidr = cidr,
                                       f_gateway = gateway, f_dns1 = dns1, f_dns2 = dns2,
                                       f_hostname = hostname\<rparr>\<rparr>) srv
               = (Response 400 (ApplyErrorJson err) None, srv)"
proof -
  from validate_inputs_bad[OF assms]
  obtain err where v: "validate_inputs ip cidr gateway dns1 dns2 hostname dhcp = Some err"
    by auto
  have "apply_network_config e ip cidr gateway dns1 dns2 hostname dhcp iface w = (Inl err, w)"
    using v by (rule apply_rejects)
  moreover have "err = CidrRange \<or> err = InvalidHostname \<or> (\<exists>v. err = InvalidIP v)"
    using v by (rule validate_inputs_error_kind)
  moreover have "post_network out
                (req\<lparr>req_body := Some \<lparr>f_token = tok, f_dhcp = dhcp, f_ip = ip, f_cidr = cidr,
                                       f_gateway = gateway, f_dns1 = dns1, f_dns2 = dns2,
                                       f_hostname = hostname\<rparr>\<rparr>) srv
               = (Response 400 (ApplyErrorJson err) None, srv)"
    using v by (simp add: post_network_def apply_rejects)
  ultimately show ?thesis by blast
qed

lemma eval_cidr_33:
  "validate_inputs ''192.168.1.50'' ''33'' ''192.168.1.1'' ''8.8.8.8'' '''' ''edge-01'' False
     = Some CidrRange"
  by code_simp

lemma py_int_33: "py_int ''33'' = Some 33"
  by code_simp

text \<open>
  The theorem at work, on the request of the specification with \<^verbatim>\<open>cidr: "33"\<close>: the answer is
  400 with the message about the CIDR, and nothing has changed.
\<close>

theorem validation_failure_changes_nothing_witness:
  "py_int ''33'' = Some 33 \<and> (32::int) < 33
   \<and> apply_network_config example_env ''192.168.1.50'' ''33'' ''192.168.1.1'' ''8.8.8.8'' ''''
        ''edge-01'' False ''eth0'' example_world = (Inl CidrRange, example_world)
   \<and> post_network example_outside
        \<lparr>req_path = ''/api/network'', req_session = ''5f2a'', req_client = ''10.0.0.9'',
         req_body = Some (example_form\<lparr>f_cidr := ''33''\<rparr>)\<rparr> example_server
       = (Response 400 (ApplyErrorJson CidrRange) None, example_server)"
  using validation_failure_changes_nothing
          [where dhcp = False and ip = "''192.168.1.50''" and cidr = "''33''"
             and gateway = "''192.168.1.1''" and ?dns1.0 = "''8.8.8.8''" and ?dns2.0 = "''''"
             and hostname = "''edge-01''" and e = example_env and iface = "''eth0''"
             and w = example_world and out = example_outside and tok = "''''"
             and srv = example_server
             and req = "\<lparr>req_path = ''/api/network'', req_session = ''5f2a'',
                          req_client = ''10.0.0.9'', req_body = None\<rparr>"]
  by (simp add: py_int_33 eval_cidr_33 apply_rejects example_form_def)

section \<open>Requests for DHCP\<close>

lemma validate_dhcp:
  assumes "dns1 = [] \<or> ip_address dns1 \<noteq> None" "dns2 = [] \<or> ip_address dns2 \<noteq> None"
    "hostname = [] \<or> re_match hostname_pattern hostname"
  shows "validate_inputs ip cidr gateway dns1 dns2 hostname True = None"
  using assms by (auto simp: validate_inputs_def validate_dns_def validate_hostname_def)

lemma map_of_update_entry:
  "map_of (map (\<lambda>(n, f). if n = k then (n, g f) else (n, f)) d) k = map_option g (map_of d k)"
  by (induction d) auto

lemma map_of_update_other:
  "k' \<noteq> k \<Longrightarrow> map_of (map (\<lambda>(n, f). if n = k then (n, g f) else (n, f)) d) k' = map_of d k'"
  by (induction d) auto

lemma map_of_open_w:
  "map_of (open_w cm d) NETPLAN_FILE =
     Some (case map_of d NETPLAN_FILE of
             None \<Rightarrow> \<lparr>content = [], mode = cm\<rparr>
           | Some f \<Rightarrow> f\<lparr>content := []\<rparr>)"
proof (cases "NETPLAN_FILE \<in> set (map fst d)")
  case True
  then obtain f where "map_of d NETPLAN_FILE = Some f"
    by (metis map_of_eq_None_iff not_None_eq set_map)
  with True show ?thesis by (simp add: open_w_def map_of_update_entry)
next
  case False
  then have "map_of d NETPLAN_FILE = None" by (simp add: map_of_eq_None_iff)
  with False show ?thesis by (simp add: open_w_def map_add_def)
qed

lemma map_of_open_w_other: "k \<noteq> NETPLAN_FILE \<Longrightarrow> map_of (open_w cm d) k = map_of d k"
  by (simp add: open_w_def map_of_update_other map_add_def split: option.splits)

lemma map_of_write_text:
  "map_of (write_text t d) NETPLAN_FILE = map_option (\<lambda>f. f\<lparr>content := t\<rparr>) (map_of d NETPLAN_FILE)"
  unfolding write_text_def by (rule map_of_update_entry)

lemma map_of_chmod:
  "map_of (chmod m d) NETPLAN_FILE = map_option (\<lambda>f. f\<lparr>mode := m\<rparr>) (map_of d NETPLAN_FILE)"
  unfolding chmod_def by (rule map_of_update_entry)

lemma map_of_write_text_other: "k \<noteq> NETPLAN_FILE \<Longrightarrow> map_of (write_text t d) k = map_of d k"
  unfolding write_text_def by (rule map_of_update_other)

lemma map_of_chmod_other: "k \<noteq> NETPLAN_FILE \<Longrightarrow> map_of (chmod m d) k = map_of d k"
  unfolding chmod_def by (rule map_of_update_other)

lemma map_of_written:
  "map_of (chmod m (write_text t (open_w cm d))) NETPLAN_FILE = Some \<lparr>content = t, mode = m\<rparr>"
  by (simp add: map_of_chmod map_of_write_text map_of_open_w split: option.splits)

lemma write_config_ok:
  "write_error e = None \<Longrightarrow>
   write_config e t w =
     (None, w\<lparr>netplan_dir := chmod 384 (write_text t (open_w (new_file_mode e) (netplan_dir w))),
              logged := logged w @ [WroteConfig]\<rparr>)"
  by (simp add: write_config_def write_trace_def Let_def)

lemma netplan_dir_set_hostname: "netplan_dir (set_hostname e h w) = netplan_dir w"
  by (simp add: set_hostname_def)

lemma netplan_dir_schedule: "netplan_dir (schedule_apply d i w) = netplan_dir w"
  by (simp add: schedule_apply_def)

lemma render_dhcp_ignores:
  "render_netplan True iface ip cidr gateway dns1 dns2 stamp
     = render_netplan True iface ip' cidr' gateway' dns1' dns2' stamp"
  by (simp add: render_netplan_def)

text \<open>
  C10. With \<open>dhcp\<close> true the fields \<open>ip\<close>, \<open>cidr\<close> and \<open>gateway\<close> are not looked at: whatever
  they are, a request whose name servers are empty or addresses and whose host name is empty
  or matches the pattern passes validation. When an interface is found and the write does
  not fail, the function answers with the word \<^verbatim>\<open>dhcp\<close>, and the text it has written is the
  DHCP text for that interface: the three fields do not occur in it.
\<close>

theorem dhcp_skips_address_checks:
  assumes "dns1 = [] \<or> ip_address dns1 \<noteq> None" "dns2 = [] \<or> ip_address dns2 \<noteq> None"
    and "hostname = [] \<or> re_match hostname_pattern hostname"
    and "iface1 = (if iface = [] then default_interface e else iface)" "iface1 \<noteq> []"
    and "write_error e = None"
  shows "validate_inputs ip cidr gateway dns1 dns2 hostname True = None
     \<and> fst (apply_network_config e ip cidr gateway dns1 dns2 hostname True iface w) = Inr ''dhcp''
     \<and> map_of (netplan_dir
                 (snd (apply_network_config e ip cidr gateway dns1 dns2 hostname True iface w)))
          NETPLAN_FILE
        = Some \<lparr>content = render_netplan True iface1 [] [] [] [] [] (utc_now e), mode = 384\<rparr>"
proof -
  have v: "validate_inputs ip cidr gateway dns1 dns2 hostname True = None"
    using assms(1-3) by (rule validate_dhcp)
  have r: "render_netplan True iface1 ip cidr gateway dns1 dns2 (utc_now e)
             = render_netplan True iface1 [] [] [] [] [] (utc_now e)"
    by (rule render_dhcp_ignores)
  show ?thesis
    using v r assms(4-6)
    by (simp add: apply_network_config_def Let_def write_config_ok netplan_dir_set_hostname
          netplan_dir_schedule map_of_written)
qed

lemma eval_dns: "ip_address ''8.8.8.8'' \<noteq> None"
  by code_simp

lemma eval_hostname: "re_match hostname_pattern ''edge-01''"
  by code_simp

lemma eval_bad_ip: "ip_address ''999.1.1.1'' = None"
  by code_simp

lemma eval_bad_int: "py_int ''abc'' = None"
  by code_simp

text \<open>
  The theorem at work: a DHCP request whose \<open>ip\<close>, \<open>cidr\<close> and \<open>gateway\<close> are all malformed,
  sent without an interface name to the example system.
\<close>

theorem dhcp_skips_address_checks_witness:
  "ip_address ''8.8.8.8'' \<noteq> None \<and> re_match hostname_pattern ''edge-01''
   \<and> ip_address ''999.1.1.1'' = None \<and> py_int ''abc'' = None \<and> ip_address ''nowhere'' = None
   \<and> default_interface example_env = ''eth0'' \<and> write_error example_env = None
   \<and> validate_inputs ''999.1.1.1'' ''abc'' ''nowhere'' ''8.8.8.8'' [] ''edge-01'' True = None
   \<and> fst (apply_network_config example_env ''999.1.1.1'' ''abc'' ''nowhere'' ''8.8.8.8'' []
             ''edge-01'' True [] example_world) = Inr ''dhcp''
   \<and> map_of (netplan_dir
               (snd (apply_network_config example_env ''999.1.1.1'' ''abc'' ''nowhere''
                       ''8.8.8.8'' [] ''edge-01'' True [] example_world))) NETPLAN_FILE
       = Some \<lparr>content = render_netplan True ''eth0'' [] [] [] [] [] ''2025-01-01T00:00:00Z'',
               mode = 384\<rparr>"
proof -
  have "ip_address ''nowhere'' = None" by code_simp
  then show ?thesis
    using dhcp_skips_address_checks
            [where ?dns1.0 = "''8.8.8.8''" and ?dns2.0 = "[]" and hostname = "''edge-01''"
               and iface = "[]" and e = example_env and ?iface1.0 = "''eth0''"
               and ip = "''999.1.1.1''" and cidr = "''abc''" and gateway = "''nowhere''"
               and w = example_world]
    by (simp add: eval_dns eval_hostname eval_bad_ip eval_bad_int example_env_def)
qed

section \<open>Paths that no handler knows\<close>

text \<open>
  C9, as stated, fails: a request for a path that no handler knows is answered 401, not
  404, when it carries no valid session, by \<open>do_GET\<close> and by \<open>do_POST\<close> alike (the check
  of the session comes before the paths of the API are told apart).
\<close>

theorem unknown_path_counterexample:
  "strip_query ''/api/nope'' \<notin> set get_endpoints
   \<and> strip_query ''/api/nope'' \<notin> set post_endpoints
   \<and> status (fst (do_GET example_outside
                    \<lparr>req_path = ''/api/nope'', req_session = [], req_client = ''10.0.0.9'',
                     req_body = None\<rparr> example_server)) = 401
   \<and> status (fst (do_POST example_outside
                    \<lparr>req_path = ''/api/nope'', req_session = [], req_client = ''10.0.0.9'',
                     req_body = None\<rparr> example_server)) = 401"
  by (simp add: strip_query_def get_endpoints_def post_endpoints_def do_GET_def do_POST_def
        is_authed_def valid_session_def check_rate_limit_def example_server_def
        example_outside_def RATE_LIMIT_def RATE_WINDOW_def Let_def)

text \<open>
  C9, amended. For a request whose path is not one of the recognized endpoints: \<open>do_GET\<close>
  answers 404 when the session is valid and 401 when it is not; \<open>do_POST\<close> answers 429 when
  the client is over the rate limit, and otherwise 404 when the session is valid and 401
  when it is not.
\<close>

theorem unknown_path_status:
  "(strip_query (req_path req) \<notin> set get_endpoints \<longrightarrow>
      status (fst (do_GET out req srv)) =
        (if fst (valid_session (clock out) (clock out) (req_session req) (srv_sessions srv))
         then 404 else 401))
   \<and> (strip_query (req_path req) \<notin> set post_endpoints \<longrightarrow>
      status (fst (do_POST out req srv)) =
        (if \<not> fst (check_rate_limit (clock out) (req_client req) (srv_rate srv)) then 429
         else if fst (valid_session (clock out) (clock out) (req_session req) (srv_sessions srv))
         then 404 else 401))"
  by (auto simp: do_GET_def do_POST_def is_authed_def get_endpoints_def post_endpoints_def
        Let_def split: prod.splits)

text \<open>
  The theorem at work on the example server, whose one session is \<^verbatim>\<open>5f2a\<close>: the four
  answers to a path that no handler knows.
\<close>

theorem unknown_path_status_witness:
  "strip_query ''/api/nope?x=1'' \<notin> set get_endpoints
   \<and> strip_query ''/api/nope?x=1'' \<notin> set post_endpoints
   \<and> status (fst (do_GET example_outside
                    \<lparr>req_path = ''/api/nope?x=1'', req_session = ''5f2a'',
                     req_client = ''10.0.0.9'', req_body = None\<rparr> example_server)) = 404
   \<and> status (fst (do_GET example_outside
                    \<lparr>req_path = ''/api/nope?x=1'', req_session = ''0000'',
                     req_client = ''10.0.0.9'', req_body = None\<rparr> example_server)) = 401
   \<and> status (fst (do_POST example_outside
                    \<lparr>req_path = ''/api/nope?x=1'', req_session = ''5f2a'',
                     req_client = ''10.0.0.9'', req_body = None\<rparr> example_server)) = 404
   \<and> status (fst (do_POST example_outside
                    \<lparr>req_path = ''/api/nope?x=1'', req_session = ''5f2a'',
                     req_client = ''10.0.0.9'', req_body = None\<rparr>
                    (example_server\<lparr>srv_rate := [''10.0.0.9'' \<mapsto> [95, 96, 97, 98, 99]]\<rparr>)))
       = 429"
  using unknown_path_status
          [where out = example_outside and srv = example_server
             and req = "\<lparr>req_path = ''/api/nope?x=1'', req_session = ''5f2a'',
                          req_client = ''10.0.0.9'', req_body = None\<rparr>"]
    unknown_path_status
          [where out = example_outside and srv = example_server
             and req = "\<lparr>req_path = ''/api/nope?x=1'', req_session = ''0000'',
                          req_client = ''10.0.0.9'', req_body = None\<rparr>"]
    unknown_path_status
          [where out = example_outside
             and srv = "example_server\<lparr>srv_rate := [''10.0.0.9'' \<mapsto> [95, 96, 97, 98, 99]]\<rparr>"
             and req = "\<lparr>req_path = ''/api/nope?x=1'', req_session = ''5f2a'',
                          req_client = ''10.0.0.9'', req_body = None\<rparr>"]
  by (simp add: strip_query_def get_endpoints_def post_endpoints_def valid_session_def
        check_rate_limit_def example_server_def example_outside_def RATE_LIMIT_def
        RATE_WINDOW_def SESSION_TIMEOUT_def Let_def)

section \<open>The rendered artifact\<close>

text \<open>
  C7. For DHCP the artifact is the header and the block of the interface with the two
  lines \<^verbatim>\<open>dhcp4: true\<close> and \<^verbatim>\<open>dhcp6: false\<close>, and nothing else: no address, route or name
  server. For a static configuration the block has \<^verbatim>\<open>dhcp4: false\<close> and \<^verbatim>\<open>dhcp6: false\<close>,
  the one address \<open>ip/cidr\<close>, the default route via \<open>gateway\<close>, and the list of name servers,
  which holds the entries of \<open>dns1\<close> and \<open>dns2\<close> that are not empty, in this order, or
  8.8.8.8 and 1.1.1.1 when both are empty.
\<close>

theorem rendered_artifact:
  "render_netplan True iface ip cidr gateway dns1 dns2 stamp =
     text_of_lines (header_lines stamp @
       [''    '' @ iface @ '':'',
        ''      dhcp4: true'',
        ''      dhcp6: false''])
   \<and> render_netplan False iface ip cidr gateway dns1 dns2 stamp =
     text_of_lines (header_lines stamp @
       [''    '' @ iface @ '':'',
        ''      dhcp4: false'',
        ''      dhcp6: false'',
        ''      addresses:'',
        ''        - '' @ ip @ ''/'' @ cidr,
        ''      routes:'',
        ''        - to: default'',
        ''          via: '' @ gateway,
        ''      nameservers:'',
        ''        addresses: ['' @
           py_join '', '' (if dns1 = [] \<and> dns2 = [] then [''8.8.8.8'', ''1.1.1.1'']
                           else if dns2 = [] then [dns1]
                           else if dns1 = [] then [dns2]
                           else [dns1, dns2]) @ '']''])"
  by (simp add: render_netplan_def text_of_lines_def header_lines_def Let_def)

text \<open>
  The theorem at work on the two end-to-end examples of the specification: the static
  configuration with one name server, and DHCP.
\<close>

theorem rendered_artifact_witness:
  "render_netplan False ''eth0'' ''192.168.1.50'' ''24'' ''192.168.1.1'' ''8.8.8.8'' []
     ''2025-01-01T00:00:00Z'' =
     text_of_lines
       [''# SafeSchool Edge -- Network Configuration (managed by network-admin)'',
        ''# Last modified: 2025-01-01T00:00:00Z'',
        ''network:'',
        ''  version: 2'',
        ''  ethernets:'',
        ''    eth0:'',
        ''      dhcp4: false'',
        ''      dhcp6: false'',
        ''      addresses:'',
        ''        - 192.168.1.50/24'',
        ''      routes:'',
        ''        - to: default'',
        ''          via: 192.168.1.1'',
        ''      nameservers:'',
        ''        addresses: [8.8.8.8]'']
   \<and> render_netplan True ''eth0'' [] ''24'' [] [] [] ''2025-01-01T00:00:00Z'' =
     text_of_lines
       [''# SafeSchool Edge -- Network Configuration (managed by network-admin)'',
        ''# Last modified: 2025-01-01T00:00:00Z'',
        ''network:'',
        ''  version: 2'',
        ''  ethernets:'',
        ''    eth0:'',
        ''      dhcp4: true'',
        ''      dhcp6: false'']"
  using rendered_artifact
          [where iface = "''eth0''" and ip = "''192.168.1.50''" and cidr = "''24''"
             and gateway = "''192.168.1.1''" and ?dns1.0 = "''8.8.8.8''" and ?dns2.0 = "[]"
             and stamp = "''2025-01-01T00:00:00Z''"]
    rendered_artifact
          [where iface = "''eth0''" and ip = "[]" and cidr = "''24''"
             and gateway = "[]" and ?dns1.0 = "[]" and ?dns2.0 = "[]"
             and stamp = "''2025-01-01T00:00:00Z''"]
  by (simp add: header_lines_def)

section \<open>The write of the artifact\<close>

lemma map_of_written_early:
  "map_of (write_text t (open_w cm d)) NETPLAN_FILE =
     Some \<lparr>content = t, mode = (case map_of d NETPLAN_FILE of None \<Rightarrow> cm | Some f \<Rightarrow> mode f)\<rparr>"
  by (simp add: map_of_write_text map_of_open_w split: option.splits)

text \<open>
  C1, amended. The write is made in place, in three steps that are visible one after the
  other at the path of the managed file: \<^verbatim>\<open>open\<close> empties the file, keeping its permission
  bits, or creates it empty with the default bits; the text is written; \<^verbatim>\<open>chmod\<close> sets the
  bits to owner read and write only. When no step fails the file holds the complete new
  text with the bits \<^verbatim>\<open>0o600\<close> at the end, and no other file of the directory is changed by
  the write.
\<close>

theorem write_in_place:
  assumes "write_error e = None"
  shows "(let d1 = open_w (new_file_mode e) d;
              d2 = write_text new d1;
              d3 = chmod 384 d2
          in write_trace e new d = (None, [d, d1, d2, d3])
             \<and> map_of d1 NETPLAN_FILE =
                 Some (case map_of d NETPLAN_FILE of
                         None \<Rightarrow> \<lparr>content = [], mode = new_file_mode e\<rparr>
                       | Some f \<Rightarrow> f\<lparr>content := []\<rparr>)
             \<and> map_of d2 NETPLAN_FILE =
                 Some \<lparr>content = new,
                       mode = (case map_of d NETPLAN_FILE of
                                 None \<Rightarrow> new_file_mode e
                               | Some f \<Rightarrow> mode f)\<rparr>
             \<and> map_of d3 NETPLAN_FILE = Some \<lparr>content = new, mode = 384\<rparr>
             \<and> (\<forall>k. k \<noteq> NETPLAN_FILE \<longrightarrow>
                    map_of d1 k = map_of d k \<and> map_of d2 k = map_of d k \<and> map_of d3 k = map_of d k)
             \<and> write_config e new w =
                 (None, w\<lparr>netplan_dir := chmod 384 (write_text new (open_w (new_file_mode e)
                                                                     (netplan_dir w))),
                          logged := logged w @ [WroteConfig]\<rparr>))"
  using assms
  by (simp add: Let_def write_trace_def map_of_open_w map_of_written_early map_of_written
        map_of_open_w_other map_of_write_text_other map_of_chmod_other write_config_ok)

text \<open>The theorem at work: the four states of a directory that holds an older managed file.\<close>

theorem write_in_place_witness:
  "write_error example_env = None
   \<and> write_trace example_env ''new''
        [(''99-safeschool-static.yaml'', \<lparr>content = ''old'', mode = 420\<rparr>)] =
       (None,
        [[(''99-safeschool-static.yaml'', \<lparr>content = ''old'', mode = 420\<rparr>)],
         [(''99-safeschool-static.yaml'', \<lparr>content = [], mode = 420\<rparr>)],
         [(''99-safeschool-static.yaml'', \<lparr>content = ''new'', mode = 420\<rparr>)],
         [(''99-safeschool-static.yaml'', \<lparr>content = ''new'', mode = 384\<rparr>)]])
   \<and> map_of (chmod 384 (write_text ''new'' (open_w 420
                [(''99-safeschool-static.yaml'', \<lparr>content = ''old'', mode = 420\<rparr>)])))
        NETPLAN_FILE = Some \<lparr>content = ''new'', mode = 384\<rparr>"
  using write_in_place
          [where e = example_env and new = "''new''"
             and d = "[(''99-safeschool-static.yaml'', \<lparr>content = ''old'', mode = 420\<rparr>)]"]
  by (simp add: example_env_def open_w_def write_text_def chmod_def NETPLAN_FILE_def Let_def)

text \<open>
  C1, as stated, fails. On the example system, after the installer's file is removed, the
  write goes through a state in which the managed file is empty, neither the old text nor
  the new one, and through a state in which it holds the new text with the bits \<^verbatim>\<open>0o644\<close>
  (420): there is no rename, and the permissions are restricted after the text is visible.
\<close>

theorem write_in_place_counterexample:
  "netplan_dir (remove_old_configs example_env example_world)
     = [(''99-safeschool-static.yaml'', \<lparr>content = ''old'', mode = 420\<rparr>)]
   \<and> snd (write_trace example_env ''new''
            (netplan_dir (remove_old_configs example_env example_world))) =
        [[(''99-safeschool-static.yaml'', \<lparr>content = ''old'', mode = 420\<rparr>)],
         [(''99-safeschool-static.yaml'', \<lparr>content = [], mode = 420\<rparr>)],
         [(''99-safeschool-static.yaml'', \<lparr>content = ''new'', mode = 420\<rparr>)],
         [(''99-safeschool-static.yaml'', \<lparr>content = ''new'', mode = 384\<rparr>)]]
   \<and> \<not> never_partial ''old'' ''new''
         (snd (write_trace example_env ''new''
                 (netplan_dir (remove_old_configs example_env example_world))))
   \<and> \<not> restricted_when_new ''new''
         (snd (write_trace example_env ''new''
                 (netplan_dir (remove_old_configs example_env example_world))))"
  by (simp add: write_trace_def example_env_def example_world_def open_w_def write_text_def
        chmod_def NETPLAN_FILE_def never_partial_def restricted_when_new_def Let_def
        remove_old_configs_def endswith_def)

section \<open>The host name pattern\<close>

lemma in_alnum_class: "in_class alnum_class c = is_alnum c"
  by (cases c) (simp add: in_class_def alnum_class_def is_alnum_def is_ascii_letter_def is_ascii_digit_def)

lemma in_alnum_hyphen_class: "in_class alnum_hyphen_class c = (is_alnum c \<or> c = CHR ''-'')"
proof -
  have "in_class alnum_hyphen_class c = (in_class alnum_class c \<or> c = CHR ''-'')"
    by (cases c) (auto simp add: in_class_def alnum_hyphen_class_def)
  then show ?thesis by (simp add: in_alnum_class)
qed

lemma set_rep_class:
  "set (rep_match (rmatch w (Class rs)) 0 n s) =
     {drop k s | k. k \<le> n \<and> k \<le> length (takeWhile (in_class rs) s)}"
proof (induction n arbitrary: s)
  case 0
  then show ?case by simp
next
  case (Suc n)
  show ?case
  proof (cases s)
    case Nil
    then show ?thesis by simp
  next
    case (Cons c cs)
    show ?thesis
    proof (cases "in_class rs c")
      case False
      with Cons show ?thesis by auto
    next
      case True
      have "set (rep_match (rmatch w (Class rs)) 0 (Suc n) s)
              = insert s {drop k cs | k. k \<le> n \<and> k \<le> length (takeWhile (in_class rs) cs)}"
        using Cons True Suc.IH[of cs] by simp
      also have "\<dots> = {drop k s | k. k \<le> Suc n \<and> k \<le> length (takeWhile (in_class rs) s)}"
      proof (intro set_eqI iffI)
        fix x assume "x \<in> insert s {drop k cs | k. k \<le> n \<and> k \<le> length (takeWhile (in_class rs) cs)}"
        then consider "x = s" | k where "x = drop k cs" "k \<le> n" "k \<le> length (takeWhile (in_class rs) cs)"
          by auto
        then show "x \<in> {drop k s | k. k \<le> Suc n \<and> k \<le> length (takeWhile (in_class rs) s)}"
        proof cases
          case 1
          then show ?thesis by (intro CollectI exI[of _ 0]) simp
        next
          case 2
          then show ?thesis using Cons True by (intro CollectI exI[of _ "Suc k"]) simp
        qed
      next
        fix x assume "x \<in> {drop k s | k. k \<le> Suc n \<and> k \<le> length (takeWhile (in_class rs) s)}"
        then obtain k where k: "x = drop k s" "k \<le> Suc n" "k \<le> length (takeWhile (in_class rs) s)"
          by auto
        show "x \<in> insert s {drop k cs | k. k \<le> n \<and> k \<le> length (takeWhile (in_class rs) cs)}"
        proof (cases k)
          case 0
          with k show ?thesis by simp
        next
          case (Suc j)
          with k Cons True show ?thesis by auto
        qed
      qed
      finally show ?thesis .
    qed
  qed
qed

lemma set_class_match: "set (rmatch w (Class rs) s) = {x. \<exists>u. s = u # x \<and> in_class rs u}"
  by (cases s) auto

lemma drop_eq_Cons_iff:
  "drop k cs = u # x \<longleftrightarrow> k < length cs \<and> cs ! k = u \<and> drop (Suc k) cs = x"
proof
  assume a: "drop k cs = u # x"
  then have k: "k < length cs" by (metis drop_all list.distinct(1) not_le)
  from Cons_nth_drop_Suc[OF k] a show "k < length cs \<and> cs ! k = u \<and> drop (Suc k) cs = x"
    using k by simp
next
  assume "k < length cs \<and> cs ! k = u \<and> drop (Suc k) cs = x"
  then show "drop k cs = u # x" using Cons_nth_drop_Suc[of k cs] by simp
qed

lemma set_inner:
  "set (rmatch w (Seq (Repeat (Class alnum_hyphen_class) 0 61) (Class alnum_class)) cs) =
     {drop (Suc k) cs | k. k \<le> 61 \<and> k \<le> length (takeWhile (in_class alnum_hyphen_class) cs)
                          \<and> k < length cs \<and> is_alnum (cs ! k)}"
proof -
  have "set (rmatch w (Seq (Repeat (Class alnum_hyphen_class) 0 61) (Class alnum_class)) cs)
          = (\<Union>s1 \<in> set (rep_match (rmatch w (Class alnum_hyphen_class)) 0 61 cs).
               set (rmatch w (Class alnum_class) s1))"
    by simp
  also have "\<dots> = (\<Union>s1 \<in> {drop k cs | k. k \<le> 61 \<and>
                                 k \<le> length (takeWhile (in_class alnum_hyphen_class) cs)}.
                      {x. \<exists>u. s1 = u # x \<and> is_alnum u})"
    by (simp only: set_rep_class set_class_match in_alnum_class)
  also have "\<dots> = {drop (Suc k) cs | k. k \<le> 61 \<and>
                        k \<le> length (takeWhile (in_class alnum_hyphen_class) cs)
                        \<and> k < length cs \<and> is_alnum (cs ! k)}"
    by (auto simp: drop_eq_Cons_iff)
  finally show ?thesis .
qed

lemma set_tail:
  "set (rmatch w (Seq (Opt X) Eol) cs) =
     {s' \<in> set (rmatch w X cs) \<union> {cs}. s' = [] \<or> s' = [CHR 0x0A]}"
  by auto

lemma set_head:
  "set (rmatch w (Seq (Class rs) R) s) =
     (case s of [] \<Rightarrow> {} | c # cs \<Rightarrow> if in_class rs c then set (rmatch w R cs) else {})"
  by (cases s) simp_all

lemma set_bol_seq: "set (rmatch w (Seq Bol R) w) = set (rmatch w R w)"
  by simp

lemma re_match_hostname_iff:
  "re_match hostname_pattern h \<longleftrightarrow>
     (\<exists>c cs. h = c # cs \<and> is_alnum c \<and>
        (cs = [] \<or> cs = [CHR 0x0A] \<or>
         (\<exists>k. k \<le> 61 \<and> k \<le> length (takeWhile (in_class alnum_hyphen_class) cs) \<and>
              k < length cs \<and> is_alnum (cs ! k) \<and>
              (drop (Suc k) cs = [] \<or> drop (Suc k) cs = [CHR 0x0A]))))"
proof -
  have "re_match hostname_pattern h \<longleftrightarrow> set (rmatch h hostname_pattern h) \<noteq> {}"
    by (simp add: re_match_def)
  also have "set (rmatch h hostname_pattern h) =
     (case h of [] \<Rightarrow> {}
      | c # cs \<Rightarrow> if is_alnum c
          then {s' \<in> {drop (Suc k) cs | k. k \<le> 61 \<and>
                        k \<le> length (takeWhile (in_class alnum_hyphen_class) cs)
                        \<and> k < length cs \<and> is_alnum (cs ! k)} \<union> {cs}. s' = [] \<or> s' = [CHR 0x0A]}
          else {})"
    by (simp only: hostname_pattern_def set_bol_seq set_head set_tail set_inner in_alnum_class)
  finally show ?thesis
    by (cases h) (auto split: if_splits)
qed

lemma take_le_takeWhile:
  "k \<le> length (takeWhile P xs) \<Longrightarrow> list_all P (take k xs)"
proof (induction xs arbitrary: k)
  case Nil
  then show ?case by simp
next
  case (Cons x xs)
  then show ?case by (cases k) (auto split: if_splits)
qed

lemma alnum_hyphen_fun:
  "in_class alnum_hyphen_class = (\<lambda>c. is_alnum c \<or> c = CHR ''-'')"
  by (rule ext) (rule in_alnum_hyphen_class)

lemma label_from_match:
  assumes "is_alnum c" "k \<le> 61" "k \<le> length (takeWhile (in_class alnum_hyphen_class) cs)"
    "k < length cs" "is_alnum (cs ! k)"
  shows "rfc1123_label (c # take (Suc k) cs)"
proof -
  have m: "take (Suc k) cs = take k cs @ [cs ! k]"
    using assms(4) by (rule take_Suc_conv_app_nth)
  have "list_all (in_class alnum_hyphen_class) (take k cs)"
    using assms(3) by (rule take_le_takeWhile)
  then have "list_all (\<lambda>c. is_alnum c \<or> c = CHR ''-'') (take k cs)"
    by (simp only: alnum_hyphen_fun)
  moreover have "length (take (Suc k) cs) = Suc k" using assms(4) by simp
  ultimately show ?thesis
    using assms(1,2,5) by (simp add: rfc1123_label_def m del: take_Suc_Cons)
qed

lemma match_from_label:
  assumes "rfc1123_label (c # m)" "r = [] \<or> r = [CHR 0x0A]" "m \<noteq> []"
  shows "\<exists>k. k \<le> 61 \<and> k \<le> length (takeWhile (in_class alnum_hyphen_class) (m @ r)) \<and>
              k < length (m @ r) \<and> is_alnum ((m @ r) ! k) \<and>
              (drop (Suc k) (m @ r) = [] \<or> drop (Suc k) (m @ r) = [CHR 0x0A])"
proof (intro exI[of _ "length m - 1"] conjI)
  have all: "list_all (in_class alnum_hyphen_class) m"
    using assms(1) by (simp add: rfc1123_label_def alnum_hyphen_fun)
  have "length m \<le> 62" using assms(1) by (simp add: rfc1123_label_def)
  then show "length m - 1 \<le> 61" by arith
  have "takeWhile (in_class alnum_hyphen_class) (m @ r)
          = m @ takeWhile (in_class alnum_hyphen_class) r"
    using all by (intro takeWhile_append2) (simp add: list_all_iff)
  then show "length m - 1 \<le> length (takeWhile (in_class alnum_hyphen_class) (m @ r))"
    by simp
  show "length m - 1 < length (m @ r)" using assms(3) by (cases m) auto
  have "(m @ r) ! (length m - 1) = last m"
    using assms(3) by (simp add: nth_append last_conv_nth)
  then show "is_alnum ((m @ r) ! (length m - 1))"
    using assms(1,3) by (simp add: rfc1123_label_def)
  have "Suc (length m - 1) = length m" using assms(3) by (cases m) auto
  then show "drop (Suc (length m - 1)) (m @ r) = [] \<or> drop (Suc (length m - 1)) (m @ r) = [CHR 0x0A]"
    using assms(2) by auto
qed

text \<open>
  What the pattern accepts: the labels, and the labels followed by one newline, since \<^verbatim>\<open>$\<close>
  also matches just before a newline that ends the string.
\<close>

lemma hostname_accepted_iff:
  "re_match hostname_pattern h \<longleftrightarrow>
     rfc1123_label h \<or> (\<exists>l. h = l @ [CHR 0x0A] \<and> rfc1123_label l)"
proof
  assume "re_match hostname_pattern h"
  then obtain c cs where h: "h = c # cs" "is_alnum c"
    and alt: "cs = [] \<or> cs = [CHR 0x0A] \<or>
         (\<exists>k. k \<le> 61 \<and> k \<le> length (takeWhile (in_class alnum_hyphen_class) cs) \<and>
              k < length cs \<and> is_alnum (cs ! k) \<and>
              (drop (Suc k) cs = [] \<or> drop (Suc k) cs = [CHR 0x0A]))"
    unfolding re_match_hostname_iff by blast
  have one: "rfc1123_label [c]" using h(2) by (simp add: rfc1123_label_def)
  from alt consider "cs = []" | "cs = [CHR 0x0A]"
    | k where "k \<le> 61" "k \<le> length (takeWhile (in_class alnum_hyphen_class) cs)"
              "k < length cs" "is_alnum (cs ! k)"
              "drop (Suc k) cs = [] \<or> drop (Suc k) cs = [CHR 0x0A]"
    by blast
  then show "rfc1123_label h \<or> (\<exists>l. h = l @ [CHR 0x0A] \<and> rfc1123_label l)"
  proof cases
    case 1
    with h one show ?thesis by simp
  next
    case 2
    with h one show ?thesis by (intro disjI2 exI[of _ "[c]"]) simp
  next
    case 3
    have lab: "rfc1123_label (c # take (Suc k) cs)"
      using h(2) 3(1-4) by (rule label_from_match)
    have split: "h = (c # take (Suc k) cs) @ drop (Suc k) cs"
      using h(1) by simp
    from 3(5) show ?thesis
    proof
      assume "drop (Suc k) cs = []"
      with split lab show ?thesis by (metis append_Nil2)
    next
      assume "drop (Suc k) cs = [CHR 0x0A]"
      with split lab show ?thesis by metis
    qed
  qed
next
  assume "rfc1123_label h \<or> (\<exists>l. h = l @ [CHR 0x0A] \<and> rfc1123_label l)"
  then obtain l r where lr: "h = l @ r" "rfc1123_label l" "r = [] \<or> r = [CHR 0x0A]"
    by (metis append_Nil2)
  from lr(2) obtain c m where l: "l = c # m"
    by (cases l) (auto simp: rfc1123_label_def)
  have c: "is_alnum c" using lr(2) l by (simp add: rfc1123_label_def)
  show "re_match hostname_pattern h"
  proof (cases "m = []")
    case True
    with lr l c show ?thesis unfolding re_match_hostname_iff by auto
  next
    case False
    from match_from_label[OF lr(2)[unfolded l] lr(3) False] lr(1) l c
    show ?thesis unfolding re_match_hostname_iff by auto
  qed
qed

lemma eval_newline_label: "\<not> rfc1123_label (''edge-01'' @ [CHR 0x0A])"
  by (simp add: rfc1123_label_def is_alnum_def is_ascii_letter_def is_ascii_digit_def)

lemma eval_newline_match: "re_match hostname_pattern (''edge-01'' @ [CHR 0x0A])"
  by code_simp

text \<open>
  C8 at a host name that the claim has rejected: \<^verbatim>\<open>edge-01\<close> followed by a newline is no
  label, its last character being the newline. \<open>apply_network_config\<close> accepts it, and on
  the example system it hands it to \<^verbatim>\<open>hostnamectl\<close> with the newline. The handler of
  \<^verbatim>\<open>POST /api/hostname\<close> strips the name before it matches it, and would set \<^verbatim>\<open>edge-01\<close>.
\<close>

theorem hostname_newline_accepted:
  "\<not> rfc1123_label (''edge-01'' @ [CHR 0x0A])
   \<and> validate_hostname (''edge-01'' @ [CHR 0x0A]) = None
   \<and> apply_network_config example_env ''192.168.1.50'' ''24'' ''192.168.1.1'' ''8.8.8.8'' []
        (''edge-01'' @ [CHR 0x0A]) False ''eth0'' example_world
       = (Inr ''192.168.1.50'',
          \<lparr>netplan_dir =
             [(''99-safeschool-static.yaml'',
               \<lparr>content = render_netplan False ''eth0'' ''192.168.1.50'' ''24'' ''192.168.1.1''
                             ''8.8.8.8'' [] ''2025-01-01T00:00:00Z'',
                mode = 384\<rparr>)],
           sys_hostname = ''edge-01'' @ [CHR 0x0A], pending_applies = 1,
           logged = [RemovedOld ''50-cloud-init.yaml'', WroteConfig,
                     HostnameSet (''edge-01'' @ [CHR 0x0A]),
                     ScheduledApply False ''192.168.1.50'']\<rparr>)
   \<and> py_strip (''edge-01'' @ [CHR 0x0A]) = ''edge-01''"
proof -
  have v: "validate_inputs ''192.168.1.50'' ''24'' ''192.168.1.1'' ''8.8.8.8'' []
             (''edge-01'' @ [CHR 0x0A]) False = None"
    by code_simp
  have s: "py_strip (''edge-01'' @ [CHR 0x0A]) = ''edge-01''"
    by code_simp
  show ?thesis
    using eval_newline_label eval_newline_match v s
    by (simp add: validate_hostname_def apply_network_config_def Let_def example_env_def
          example_world_def remove_old_configs_def endswith_def write_config_def
          write_trace_def open_w_def write_text_def chmod_def NETPLAN_FILE_def set_hostname_def
          schedule_apply_def)
qed

section \<open>The range check of the CIDR\<close>

lemma py_split_no_sep: "sep \<notin> set s \<Longrightarrow> py_split sep s = [s]"
  by (induction s) auto

lemma py_split_append: "sep \<notin> set a \<Longrightarrow> py_split sep (a @ sep # b) = a # py_split sep b"
  by (induction a) auto

lemma ip_address_no_slash: "ip_address ip \<noteq> None \<Longrightarrow> CHR ''/'' \<notin> set ip"
  by (auto simp: ip_address_def IPv4Address_def IPv6Address_def split: option.splits if_splits)

lemma ascii_digits_no_slash: "ascii_digits s \<Longrightarrow> CHR ''/'' \<notin> set s"
  by (auto simp: ascii_digits_def is_ascii_digit_def list_all_iff)

lemma split_addr_prefix_pair:
  assumes "CHR ''/'' \<notin> set ip" "CHR ''/'' \<notin> set cidr"
  shows "split_addr_prefix (ip @ CHR ''/'' # cidr) = Some (ip, Some cidr)"
  using assms by (simp add: split_addr_prefix_def py_split_append py_split_no_sep)

lemma prefix_from_digits:
  assumes "ascii_digits cidr" "py_int cidr = Some n" "0 \<le> n" "n \<le> int maxlen"
  shows "prefix_from_prefix_string maxlen cidr = Some (nat n)"
  using assms by (simp add: prefix_from_prefix_string_def)

lemma ip_network_ok:
  assumes "ip_address ip \<noteq> None" "ascii_digits cidr" "py_int cidr = Some n" "1 \<le> n" "n \<le> 32"
  shows "ip_network (ip @ ''/'' @ cidr) \<noteq> None"
proof -
  have sp: "split_addr_prefix (ip @ CHR ''/'' # cidr) = Some (ip, Some cidr)"
    using assms(1,2) by (intro split_addr_prefix_pair ip_address_no_slash ascii_digits_no_slash)
  have p4: "v4_make_netmask cidr = Some (nat n)"
    using assms(2-5) by (simp add: v4_make_netmask_def prefix_from_digits)
  have p6: "v6_make_netmask cidr = Some (nat n)"
    using assms(2-5) by (simp add: v6_make_netmask_def prefix_from_digits)
  show ?thesis
  proof (cases "IPv4Address ip")
    case (Some a)
    then show ?thesis by (simp add: ip_network_def IPv4Network_def sp p4)
  next
    case None
    with assms(1) obtain a sc where "IPv6Address ip = Some (a, sc)"
      by (auto simp: ip_address_def split: option.splits)
    then show ?thesis
      by (simp add: ip_network_def IPv6Network_def sp p6 split: option.splits)
  qed
qed

lemma not_cidr_range:
  assumes "py_int cidr = Some n" "1 \<le> n" "n \<le> 32"
  shows "validate_inputs ip cidr gateway dns1 dns2 hostname dhcp \<noteq> Some CidrRange"
  using assms
  by (auto simp: validate_inputs_def validate_static_def validate_dns_def validate_hostname_def
           split: option.splits if_splits)

text \<open>
  C3, amended. With \<open>dhcp\<close> false, when \<open>ip\<close> and \<open>gateway\<close> are addresses and \<^verbatim>\<open>int\<close> reads
  \<open>cidr\<close> as an integer outside 1 to 32, validation fails with the error of the CIDR, whose
  message is \<^verbatim>\<open>CIDR must be between 1 and 32\<close>. When \<^verbatim>\<open>int\<close> reads \<open>cidr\<close> as an integer from
  1 to 32, validation never fails with that error; and when moreover \<open>cidr\<close> is written with
  the digits 0 to 9 only and \<open>ip\<close> and \<open>gateway\<close> are addresses, all the checks of the static
  fields pass.
\<close>

theorem cidr_range_check:
  "(ip_address ip \<noteq> None \<and> ip_address gateway \<noteq> None \<and> py_int cidr = Some n \<and>
      (n < 1 \<or> 32 < n) \<longrightarrow>
      validate_inputs ip cidr gateway dns1 dns2 hostname False = Some CidrRange \<and>
      error_message text_of CidrRange = ''CIDR must be between 1 and 32'')
   \<and> (py_int cidr = Some n \<and> 1 \<le> n \<and> n \<le> 32 \<longrightarrow>
      validate_inputs ip cidr gateway dns1 dns2 hostname dhcp \<noteq> Some CidrRange)
   \<and> (ip_address ip \<noteq> None \<and> ip_address gateway \<noteq> None \<and> ascii_digits cidr \<and>
      py_int cidr = Some n \<and> 1 \<le> n \<and> n \<le> 32 \<longrightarrow>
      validate_static ip cidr gateway = None)"
proof (intro conjI impI)
  assume "ip_address ip \<noteq> None \<and> ip_address gateway \<noteq> None \<and> py_int cidr = Some n \<and>
      (n < 1 \<or> 32 < n)"
  then show "validate_inputs ip cidr gateway dns1 dns2 hostname False = Some CidrRange"
    by (auto simp: validate_inputs_def validate_static_def)
next
  show "error_message text_of CidrRange = ''CIDR must be between 1 and 32''"
    by (simp add: error_message_def)
next
  assume "py_int cidr = Some n \<and> 1 \<le> n \<and> n \<le> 32"
  then show "validate_inputs ip cidr gateway dns1 dns2 hostname dhcp \<noteq> Some CidrRange"
    by (simp add: not_cidr_range)
next
  assume a: "ip_address ip \<noteq> None \<and> ip_address gateway \<noteq> None \<and> ascii_digits cidr \<and>
      py_int cidr = Some n \<and> 1 \<le> n \<and> n \<le> 32"
  then have "ip_network (ip @ ''/'' @ cidr) \<noteq> None"
    by (intro ip_network_ok[of ip cidr n]) auto
  with a show "validate_static ip cidr gateway = None"
    by (auto simp: validate_static_def)
qed

lemma eval_ip: "ip_address ''192.168.1.50'' \<noteq> None"
  by code_simp

lemma eval_gw: "ip_address ''192.168.1.1'' \<noteq> None"
  by code_simp

lemma py_int_24: "py_int ''24'' = Some 24"
  by code_simp

lemma py_int_0: "py_int ''0'' = Some 0"
  by code_simp

text \<open>The theorem at work, with \<open>cidr\<close> 33, 0 and 24.\<close>

theorem cidr_range_check_witness:
  "ip_address ''192.168.1.50'' \<noteq> None \<and> ip_address ''192.168.1.1'' \<noteq> None
   \<and> py_int ''33'' = Some 33 \<and> (32::int) < 33
   \<and> validate_inputs ''192.168.1.50'' ''33'' ''192.168.1.1'' ''8.8.8.8'' [] ''edge-01'' False
       = Some CidrRange
   \<and> py_int ''0'' = Some 0 \<and> (0::int) < 1
   \<and> validate_inputs ''192.168.1.50'' ''0'' ''192.168.1.1'' ''8.8.8.8'' [] ''edge-01'' False
       = Some CidrRange
   \<and> py_int ''24'' = Some 24 \<and> (1::int) \<le> 24 \<and> (24::int) \<le> 32 \<and> ascii_digits ''24''
   \<and> validate_inputs ''192.168.1.50'' ''24'' ''192.168.1.1'' ''8.8.8.8'' [] ''edge-01'' False
       \<noteq> Some CidrRange
   \<and> validate_static ''192.168.1.50'' ''24'' ''192.168.1.1'' = None"
  using cidr_range_check
          [where ip = "''192.168.1.50''" and gateway = "''192.168.1.1''" and cidr = "''33''"
             and n = 33 and ?dns1.0 = "''8.8.8.8''" and ?dns2.0 = "[]"
             and hostname = "''edge-01''" and dhcp = False]
    cidr_range_check
          [where ip = "''192.168.1.50''" and gateway = "''192.168.1.1''" and cidr = "''0''"
             and n = 0 and ?dns1.0 = "''8.8.8.8''" and ?dns2.0 = "[]"
             and hostname = "''edge-01''" and dhcp = False]
    cidr_range_check
          [where ip = "''192.168.1.50''" and gateway = "''192.168.1.1''" and cidr = "''24''"
             and n = 24 and ?dns1.0 = "''8.8.8.8''" and ?dns2.0 = "[]"
             and hostname = "''edge-01''" and dhcp = False]
  by (simp add: eval_ip eval_gw py_int_33 py_int_24 py_int_0 ascii_digits_def is_ascii_digit_def)

lemma eval_bad_address:
  "validate_inputs ''bad'' ''33'' ''192.168.1.1'' [] [] [] False
     = Some (InvalidIP (AddressError ''bad''))"
  by code_simp

lemma eval_bad_literal:
  "validate_inputs ''192.168.1.50'' ''abc'' ''192.168.1.1'' [] [] [] False
     = Some (InvalidIP (IntError ''abc''))"
  by code_simp

text \<open>
  C3, as stated, fails. The checks run in the order of the source and the first failure is
  reported: with an \<open>ip\<close> that is no address and \<open>cidr\<close> 33 the error is the one of the
  address. And a \<open>cidr\<close> that is no integer makes \<^verbatim>\<open>int\<close> raise the ValueError that the
  \<^verbatim>\<open>except\<close> clause reports as \<^verbatim>\<open>Invalid IP address\<close>.
\<close>

theorem cidr_range_check_counterexample:
  "py_int ''33'' = Some 33
   \<and> validate_inputs ''bad'' ''33'' ''192.168.1.1'' [] [] [] False
       = Some (InvalidIP (AddressError ''bad''))
   \<and> py_int ''abc'' = None
   \<and> validate_inputs ''192.168.1.50'' ''abc'' ''192.168.1.1'' [] [] [] False
       = Some (InvalidIP (IntError ''abc''))
   \<and> InvalidIP (AddressError ''bad'') \<noteq> CidrRange \<and> InvalidIP (IntError ''abc'') \<noteq> CidrRange"
  by (simp add: py_int_33 eval_bad_address eval_bad_literal eval_bad_int)

section \<open>Addresses of both families\<close>

text \<open>What validation does require of the four fields: an address of either family.\<close>

lemma accepted_addresses:
  assumes "validate_inputs ip cidr gateway dns1 dns2 hostname dhcp = None"
  shows "(\<not> dhcp \<longrightarrow> ip_address ip \<noteq> None \<and> ip_address gateway \<noteq> None)
         \<and> (dns1 \<noteq> [] \<longrightarrow> ip_address dns1 \<noteq> None)
         \<and> (dns2 \<noteq> [] \<longrightarrow> ip_address dns2 \<noteq> None)"
  using assms
  by (auto simp: validate_inputs_def validate_static_def validate_dns_def
           split: option.splits if_splits)

lemma eval_ipv6:
  "validate_inputs ''2001:db8::50'' ''24'' ''2001:db8::1'' ''2001:4860:4860::8888'' [] [] False
     = None"
  by code_simp

lemma eval_not_ipv4:
  "IPv4Address ''2001:db8::50'' = None \<and> IPv4Address ''2001:db8::1'' = None
   \<and> IPv4Address ''2001:4860:4860::8888'' = None"
  by code_simp

text \<open>
  C2 at a configuration that the claim has rejected: \<open>ip\<close>, \<open>gateway\<close> and \<open>dns1\<close> are IPv6
  addresses, none of them parses as an IPv4 address, and validation passes; on the example
  system the configuration is applied.
\<close>

theorem ipv6_accepted:
  "IPv4Address ''2001:db8::50'' = None \<and> IPv4Address ''2001:db8::1'' = None
   \<and> IPv4Address ''2001:4860:4860::8888'' = None
   \<and> validate_inputs ''2001:db8::50'' ''24'' ''2001:db8::1'' ''2001:4860:4860::8888'' [] []
        False = None
   \<and> fst (apply_network_config example_env ''2001:db8::50'' ''24'' ''2001:db8::1''
             ''2001:4860:4860::8888'' [] [] False ''eth0'' example_world)
       = Inr ''2001:db8::50''"
  by (simp add: eval_not_ipv4 eval_ipv6 apply_network_config_def Let_def write_config_ok
        example_env_def)

end
